theory Spec2Isabelle
  imports
    Main
    "HOL-Library.AList"
    "HOL-Library.Char_ord"
    "HOL-Library.List_Lexorder"
    "HOL-Library.Option_ord"
begin

section \<open>BibleVersionCodesConverter: the load-validate-reindex pipeline\<close>

text \<open>
  A shallow embedding of \<^verbatim>\<open>Python/BibleVersionCodesConverter.py\<close>: the class
  \<^verbatim>\<open>BibleVersionCodesConverter\<close> with its methods \<^verbatim>\<open>loadAndValidate\<close>,
  \<^verbatim>\<open>__load\<close>, \<^verbatim>\<open>__validate\<close> and \<^verbatim>\<open>importDataToPython\<close>, and the
  nested helper \<^verbatim>\<open>addToAllCodesDict\<close>.

  Conventions of the embedding:
  \<^item> a Python \<^verbatim>\<open>str\<close> is a \<^typ>\<open>string\<close>, read as the bytes of its UTF-8 encoding; the
    lexicographic order of these bytes is the code-point order Python compares strings by;
  \<^item> a value that is a \<^verbatim>\<open>str\<close> or \<^verbatim>\<open>None\<close> is a \<^typ>\<open>string option\<close>;
  \<^item> a Python \<^verbatim>\<open>dict\<close> is an association list with distinct keys in insertion order,
    written to with \<^const>\<open>AList.update\<close> (an existing key keeps its place and gets the new
    value, a new key goes to the end);
  \<^item> a raised exception is a value of \<open>py_error\<close>; a method returns its outcome, the
    object after the call (attributes assigned before an exception stay assigned) and the
    diagnostics it logged;
  \<^item> the collaborators that live outside the file (the XML parser, the
    \<^verbatim>\<open>BibleOrgSysGlobals\<close> flag and checkers) are fields of an environment record.
\<close>

subsection \<open>Python values and exceptions\<close>

type_synonym pytext = "string option"

datatype py_error =
    AssertionError
  | AttributeError
  | TypeError
  | NameError
  | ParseFailure

datatype 'a result = Returned 'a | Raised py_error

text \<open>Truthiness of a \<^verbatim>\<open>str\<close>-or-\<^verbatim>\<open>None\<close> value: \<^verbatim>\<open>if x:\<close>.\<close>

definition truthy :: "pytext \<Rightarrow> bool" where
  "truthy v = (case v of None \<Rightarrow> False | Some s \<Rightarrow> s \<noteq> [])"

subsection \<open>The element tree\<close>

text \<open>
  \<^verbatim>\<open>xml.etree.ElementTree.Element\<close>: tag, text, tail, attributes and children. An
  element without character data has text \<^verbatim>\<open>None\<close>.
\<close>

datatype element =
  Element (tag: string) (text_of: pytext) (tail: pytext)
          (attrib: "(string \<times> string) list") (children: "element list")

text \<open>\<^verbatim>\<open>element.find(name)\<close> with a plain tag: the first child carrying that tag.\<close>

definition element_find :: "element \<Rightarrow> string \<Rightarrow> element option" where
  "element_find e name = List.find (\<lambda>c. tag c = name) (children e)"

text \<open>\<^verbatim>\<open>element.find(name).text\<close>: an \<^verbatim>\<open>AttributeError\<close> when there is no such child.\<close>

definition find_text :: "element \<Rightarrow> string \<Rightarrow> py_error + pytext" where
  "find_text e name =
     (case element_find e name of None \<Rightarrow> Inl AttributeError | Some c \<Rightarrow> Inr (text_of c))"

text \<open>\<^verbatim>\<open>None if element.find(name) is None else element.find(name).text\<close>\<close>

definition text_or_None :: "element \<Rightarrow> string \<Rightarrow> pytext" where
  "text_or_None e name =
     (case element_find e name of None \<Rightarrow> None | Some c \<Rightarrow> text_of c)"

subsection \<open>The derived datasets\<close>

text \<open>
  An entry is the dict literal built for one record: field name to value, the optional
  fields present only when their value is truthy.
\<close>

type_synonym entry = "(string \<times> pytext) list"

record datasets =
  AbbreviationsList :: "pytext list"
  AbbreviationsDict :: "(pytext \<times> entry) list"
  NamesDict :: "(pytext \<times> entry list) list"
  LanguageDict :: "(pytext \<times> entry list) list"
  PublisherDict :: "(pytext \<times> entry list) list"
  LicenceDict :: "(pytext \<times> entry list) list"
  WebLinkDict :: "(pytext \<times> entry list) list"

text \<open>The local accumulators of \<^verbatim>\<open>importDataToPython\<close>.\<close>

record accumulators =
  myAbbrevList :: "pytext list"
  myAbbrevDict :: "(pytext \<times> entry) list"
  myNameDict :: "(pytext \<times> entry list) list"
  myLanguageDict :: "(pytext \<times> entry list) list"
  myPublisherDict :: "(pytext \<times> entry list) list"
  myLicenseDict :: "(pytext \<times> entry list) list"
  myWebLinkDict :: "(pytext \<times> entry list) list"

definition no_accumulators :: accumulators where
  "no_accumulators =
     \<lparr> myAbbrevList = [], myAbbrevDict = [], myNameDict = [], myLanguageDict = [],
       myPublisherDict = [], myLicenseDict = [], myWebLinkDict = [] \<rparr>"

text \<open>\<^verbatim>\<open>if value: entry[name] = value\<close>\<close>

definition set_if_truthy :: "string \<Rightarrow> pytext \<Rightarrow> entry \<Rightarrow> entry" where
  "set_if_truthy name v ent = (if truthy v then AList.update name v ent else ent)"

text \<open>\<^verbatim>\<open>d[key].append( entry )\<close> on a \<^verbatim>\<open>defaultdict(list)\<close>.\<close>

definition dd_append ::
  "pytext \<Rightarrow> entry \<Rightarrow> (pytext \<times> entry list) list \<Rightarrow> (pytext \<times> entry list) list" where
  "dd_append k ent d =
     (case map_of d k of
        None \<Rightarrow> AList.update k [ent] d
      | Some ents \<Rightarrow> AList.update k (ents @ [ent]) d)"

text \<open>The six dict literals of one pass through the loop body.\<close>

definition abbrev_entry :: "pytext \<Rightarrow> pytext \<Rightarrow> pytext \<Rightarrow> pytext \<Rightarrow> pytext \<Rightarrow> pytext \<Rightarrow> entry" where
  "abbrev_entry mainAbbreviation versionName languageCode publisherName licence webLink =
     set_if_truthy ''webLink'' webLink
       (set_if_truthy ''licence'' licence
         (set_if_truthy ''publisherName'' publisherName
           [(''versionName'', versionName), (''languageCode'', languageCode)]))"

definition name_entry :: "pytext \<Rightarrow> pytext \<Rightarrow> pytext \<Rightarrow> pytext \<Rightarrow> pytext \<Rightarrow> pytext \<Rightarrow> entry" where
  "name_entry mainAbbreviation versionName languageCode publisherName licence webLink =
     set_if_truthy ''webLink'' webLink
       (set_if_truthy ''licence'' licence
         (set_if_truthy ''publisherName'' publisherName
           [(''mainAbbreviation'', mainAbbreviation), (''languageCode'', languageCode)]))"

definition language_entry :: "pytext \<Rightarrow> pytext \<Rightarrow> pytext \<Rightarrow> pytext \<Rightarrow> pytext \<Rightarrow> pytext \<Rightarrow> entry" where
  "language_entry mainAbbreviation versionName languageCode publisherName licence webLink =
     set_if_truthy ''webLink'' webLink
       (set_if_truthy ''licence'' licence
         (set_if_truthy ''publisherName'' publisherName
           [(''mainAbbreviation'', mainAbbreviation), (''versionName'', versionName)]))"

definition publisher_entry :: "pytext \<Rightarrow> pytext \<Rightarrow> pytext \<Rightarrow> pytext \<Rightarrow> pytext \<Rightarrow> pytext \<Rightarrow> entry" where
  "publisher_entry mainAbbreviation versionName languageCode publisherName licence webLink =
     set_if_truthy ''webLink'' webLink
       (set_if_truthy ''licence'' licence
         [(''mainAbbreviation'', mainAbbreviation), (''versionName'', versionName),
          (''languageCode'', languageCode)])"

definition licence_entry :: "pytext \<Rightarrow> pytext \<Rightarrow> pytext \<Rightarrow> pytext \<Rightarrow> pytext \<Rightarrow> pytext \<Rightarrow> entry" where
  "licence_entry mainAbbreviation versionName languageCode publisherName licence webLink =
     set_if_truthy ''webLink'' webLink
       (set_if_truthy ''publisherName'' publisherName
         [(''mainAbbreviation'', mainAbbreviation), (''versionName'', versionName),
          (''languageCode'', languageCode)])"

definition webLink_entry :: "pytext \<Rightarrow> pytext \<Rightarrow> pytext \<Rightarrow> pytext \<Rightarrow> pytext \<Rightarrow> pytext \<Rightarrow> entry" where
  "webLink_entry mainAbbreviation versionName languageCode publisherName licence webLink =
     set_if_truthy ''licence'' licence
       (set_if_truthy ''publisherName'' publisherName
         [(''mainAbbreviation'', mainAbbreviation), (''versionName'', versionName),
          (''languageCode'', languageCode)])"

text \<open>
  The body of \<^verbatim>\<open>for element in self._XMLTree\<close>, after the six values were read: the
  appends and assignments of lines 313 to 349.
\<close>

definition store_record ::
  "pytext \<Rightarrow> pytext \<Rightarrow> pytext \<Rightarrow> pytext \<Rightarrow> pytext \<Rightarrow> pytext \<Rightarrow> accumulators \<Rightarrow> accumulators" where
  "store_record mainAbbreviation versionName languageCode publisherName licence webLink a =
     \<lparr> myAbbrevList = myAbbrevList a @ [mainAbbreviation],
       myAbbrevDict = AList.update mainAbbreviation
          (abbrev_entry mainAbbreviation versionName languageCode publisherName licence webLink)
          (myAbbrevDict a),
       myNameDict = dd_append versionName
          (name_entry mainAbbreviation versionName languageCode publisherName licence webLink)
          (myNameDict a),
       myLanguageDict = dd_append languageCode
          (language_entry mainAbbreviation versionName languageCode publisherName licence webLink)
          (myLanguageDict a),
       myPublisherDict =
          (if truthy publisherName
           then dd_append publisherName
                  (publisher_entry mainAbbreviation versionName languageCode publisherName licence webLink)
                  (myPublisherDict a)
           else myPublisherDict a),
       myLicenseDict =
          (if truthy licence
           then dd_append licence
                  (licence_entry mainAbbreviation versionName languageCode publisherName licence webLink)
                  (myLicenseDict a)
           else myLicenseDict a),
       myWebLinkDict =
          (if truthy webLink
           then dd_append webLink
                  (webLink_entry mainAbbreviation versionName languageCode publisherName licence webLink)
                  (myWebLinkDict a)
           else myWebLinkDict a) \<rparr>"

text \<open>
  One pass through the loop body: the three compulsory reads raise when the element is
  missing, the three optional reads give \<^verbatim>\<open>None\<close>.
\<close>

definition import_element :: "accumulators \<Rightarrow> element \<Rightarrow> py_error + accumulators" where
  "import_element a element =
     (case find_text element ''mainAbbreviation'' of Inl err \<Rightarrow> Inl err
      | Inr mainAbbreviation \<Rightarrow>
     (case find_text element ''versionName'' of Inl err \<Rightarrow> Inl err
      | Inr versionName \<Rightarrow>
     (case find_text element ''languageCode'' of Inl err \<Rightarrow> Inl err
      | Inr languageCode \<Rightarrow>
        Inr (store_record mainAbbreviation versionName languageCode
               (text_or_None element ''publisherName'')
               (text_or_None element ''licence'')
               (text_or_None element ''webLink'') a))))"

fun import_loop :: "accumulators \<Rightarrow> element list \<Rightarrow> py_error + accumulators" where
  "import_loop a [] = Inr a"
| "import_loop a (element # rest) =
     (case import_element a element of
        Inl err \<Rightarrow> Inl err
      | Inr a' \<Rightarrow> import_loop a' rest)"

text \<open>
  \<^verbatim>\<open>sorted( myAbbrevList )\<close>. The list holds \<^verbatim>\<open>str\<close> and \<^verbatim>\<open>None\<close> values; sorting
  two or more values compares every one of them with another, and a comparison with
  \<^verbatim>\<open>None\<close> raises \<^verbatim>\<open>TypeError\<close>. A list of at most one value is returned as it is.
\<close>

definition sorted_py :: "pytext list \<Rightarrow> py_error + pytext list" where
  "sorted_py xs =
     (if 2 \<le> length xs \<and> None \<in> set xs then Inl TypeError else Inr (sort xs))"

definition make_datasets :: "pytext list \<Rightarrow> accumulators \<Rightarrow> datasets" where
  "make_datasets sortedList a =
     \<lparr> AbbreviationsList = sortedList,
       AbbreviationsDict = myAbbrevDict a,
       NamesDict = myNameDict a,
       LanguageDict = myLanguageDict a,
       PublisherDict = myPublisherDict a,
       LicenceDict = myLicenseDict a,
       WebLinkDict = myWebLinkDict a \<rparr>"

text \<open>Lines 293 to 357: everything \<^verbatim>\<open>importDataToPython\<close> computes from the records.\<close>

definition build_datasets :: "element list \<Rightarrow> py_error + datasets" where
  "build_datasets elements =
     (case import_loop no_accumulators elements of
        Inl err \<Rightarrow> Inl err
      | Inr a \<Rightarrow>
          (case sorted_py (myAbbrevList a) of
             Inl err \<Rightarrow> Inl err
           | Inr sortedList \<Rightarrow> Inr (make_datasets sortedList a)))"

subsection \<open>The converter object\<close>

text \<open>
  The attributes of the instance. \<open>DataSets\<close> is \<^verbatim>\<open>self.__DataSets\<close>: \<open>None\<close> stands
  for the empty dict of the constructor, the only falsy value it takes.
  \<open>XMLFileOrFilepath\<close> is \<open>None\<close> until \<^verbatim>\<open>__load\<close> assigns the attribute.
\<close>

record converter =
  XMLTree :: "element option"
  XMLheader :: "element option"
  XMLFileOrFilepath :: "string option"
  DataSets :: "datasets option"
  titleString :: pytext
  PROGRAM_VERSION :: pytext
  dateString :: pytext

definition init :: converter where
  "init = \<lparr> XMLTree = None, XMLheader = None, XMLFileOrFilepath = None, DataSets = None,
            titleString = Some [], PROGRAM_VERSION = Some [], dateString = Some [] \<rparr>"

text \<open>
  \<^verbatim>\<open>importDataToPython\<close>: the assertion on the tree (an element without children is
  falsy), the cached result, and otherwise the computation and its caching.
\<close>

definition importDataToPython :: "converter \<Rightarrow> datasets result \<times> converter" where
  "importDataToPython self =
     (case XMLTree self of
        None \<Rightarrow> (Raised AssertionError, self)
      | Some tree \<Rightarrow>
          if children tree = [] then (Raised AssertionError, self)
          else (case DataSets self of
                  Some cached \<Rightarrow> (Returned cached, self)
                | None \<Rightarrow>
                    (case build_datasets (children tree) of
                       Inl err \<Rightarrow> (Raised err, self)
                     | Inr ds \<Rightarrow> (Returned ds, self\<lparr>DataSets := Some ds\<rparr>))))"

subsection \<open>Diagnostics\<close>

text \<open>
  One constructor for each \<^verbatim>\<open>logging\<close> call of the module, carrying the values the call
  formats into its message, in the order of the format. What the checkers of
  \<^verbatim>\<open>BibleOrgSysGlobals\<close> report is kept apart as \<open>External\<close>.
\<close>

datatype level = INFO | WARNING | ERROR

datatype message =
    UnexpectedElementsInHeader
  | MissingWorkElementInHeader
  | MissingHeaderElement string
  | UnexpectedTailAfterHeader string
  | ExpectedToLoad string string
  | AlreadyLoaded string
  | CompulsoryAttributeMissing string string nat
  | CompulsoryAttributeBlank string string nat
  | OptionalAttributeBlank string string nat
  | AdditionalAttribute string pytext string nat
  | AttributeRepeated pytext string string nat
  | CompulsoryElementMissing string pytext nat
  | CompulsoryElementBlank string pytext nat
  | OptionalElementBlank string pytext nat
  | AdditionalElement string pytext pytext nat
  | ElementRepeated pytext string pytext nat
  | UnexpectedElement string nat
  | UnexpectedTailAfterElement string string nat
  | UnexpectedTailAfterTree string string
  | AlreadyAssigned string string string string

datatype diagnostic = Log level message | External string

subsection \<open>Whitespace\<close>

text \<open>
  \<^verbatim>\<open>tail is not None and tail.strip()\<close>: the tail holds a character that is not
  whitespace. The code points \<^verbatim>\<open>str.strip()\<close> removes, in UTF-8: U+0009 to U+000D,
  U+001C to U+0020, U+0085, U+00A0, U+1680, U+2000 to U+200A, U+2028, U+2029, U+202F,
  U+205F and U+3000.
\<close>

definition whitespace :: "string list" where
  "whitespace =
     [[CHR 0x09], [CHR 0x0A], [CHR 0x0B], [CHR 0x0C], [CHR 0x0D],
      [CHR 0x1C], [CHR 0x1D], [CHR 0x1E], [CHR 0x1F], [CHR 0x20],
      [CHR 0xC2, CHR 0x85], [CHR 0xC2, CHR 0xA0], [CHR 0xE1, CHR 0x9A, CHR 0x80],
      [CHR 0xE2, CHR 0x80, CHR 0x80], [CHR 0xE2, CHR 0x80, CHR 0x81],
      [CHR 0xE2, CHR 0x80, CHR 0x82], [CHR 0xE2, CHR 0x80, CHR 0x83],
      [CHR 0xE2, CHR 0x80, CHR 0x84], [CHR 0xE2, CHR 0x80, CHR 0x85],
      [CHR 0xE2, CHR 0x80, CHR 0x86], [CHR 0xE2, CHR 0x80, CHR 0x87],
      [CHR 0xE2, CHR 0x80, CHR 0x88], [CHR 0xE2, CHR 0x80, CHR 0x89],
      [CHR 0xE2, CHR 0x80, CHR 0x8A], [CHR 0xE2, CHR 0x80, CHR 0xA8],
      [CHR 0xE2, CHR 0x80, CHR 0xA9], [CHR 0xE2, CHR 0x80, CHR 0xAF],
      [CHR 0xE2, CHR 0x81, CHR 0x9F], [CHR 0xE3, CHR 0x80, CHR 0x80]]"

definition leading_whitespace :: "string \<Rightarrow> string option" where
  "leading_whitespace s = List.find (\<lambda>w. w \<noteq> [] \<and> take (length w) s = w) whitespace"

function only_whitespace :: "string \<Rightarrow> bool" where
  "only_whitespace s =
     (if s = [] then True
      else (case leading_whitespace s of
              None \<Rightarrow> False
            | Some w \<Rightarrow> only_whitespace (drop (length w) s)))"
  by pat_completeness auto
termination
proof (relation "measure length")
  show "wf (measure length)" by simp
next
  fix s :: string and w :: string
  assume "s \<noteq> []" and "leading_whitespace s = Some w"
  then have "w \<noteq> []"
    by (auto simp: leading_whitespace_def find_Some_iff)
  with \<open>s \<noteq> []\<close> show "(drop (length w) s, s) \<in> measure length"
    by simp
qed

definition strip_truthy :: "pytext \<Rightarrow> bool" where
  "strip_truthy t = (case t of None \<Rightarrow> False | Some s \<Rightarrow> \<not> only_whitespace s)"

subsection \<open>The collaborators\<close>

text \<open>
  What the module takes from outside: \<^verbatim>\<open>ElementTree().parse\<close>, which gives the root
  element of the document at a path or raises; \<^verbatim>\<open>BibleOrgSysGlobals.strictCheckingFlag\<close>;
  and the four checkers of \<^verbatim>\<open>BibleOrgSysGlobals\<close>. A checker is given an element and a
  location; it reports some messages of its own and then returns or raises. (The
  checkers of the library end a report with a statement that raises \<^verbatim>\<open>NameError\<close> when
  the strict flag is set.) The result of a call is the messages reported and the
  exception raised, if any. \<^verbatim>\<open>vPrint\<close> writes to the console and is left out.
\<close>

type_synonym check_result = "string list \<times> py_error option"

record environment =
  parse :: "string \<Rightarrow> py_error + element"
  strictCheckingFlag :: bool
  checkXMLNoText :: "element \<Rightarrow> string \<Rightarrow> check_result"
  checkXMLNoTail :: "element \<Rightarrow> string \<Rightarrow> check_result"
  checkXMLNoAttributes :: "element \<Rightarrow> string \<Rightarrow> check_result"
  checkXMLNoSubelements :: "element \<Rightarrow> string \<Rightarrow> check_result"

text \<open>
  Checker calls made one after the other: the messages of each are logged, and the first
  call that raises ends the sequence.
\<close>

fun run_checks :: "check_result list \<Rightarrow> diagnostic list \<times> py_error option" where
  "run_checks [] = ([], None)"
| "run_checks ((messages, Some err) # rest) = (map External messages, Some err)"
| "run_checks ((messages, None) # rest) =
     (case run_checks rest of (log, raised) \<Rightarrow> (map External messages @ log, raised))"

subsection \<open>The constants of the constructor\<close>

definition filenameBase :: string where "filenameBase = ''BibleVersionCodes''"
definition treeTag :: string where "treeTag = ''BibleVersionCodes''"
definition headerTag :: string where "headerTag = ''header''"
definition mainElementTag :: string where "mainElementTag = ''BibleVersionCodes''"

definition compulsoryAttributes :: "string list" where "compulsoryAttributes = []"
definition optionalAttributes :: "string list" where "optionalAttributes = []"
definition uniqueAttributes :: "string list" where
  "uniqueAttributes = compulsoryAttributes @ optionalAttributes"
definition compulsoryElements :: "string list" where
  "compulsoryElements = [''mainAbbreviation'', ''versionName'', ''languageCode'']"
definition optionalElements :: "string list" where
  "optionalElements = [''publisherName'', ''licence'', ''webLink'']"
definition uniqueElements :: "string list" where
  "uniqueElements = [''mainAbbreviation'', ''webLink'']"

subsection \<open>Loading\<close>

text \<open>\<^verbatim>\<open>self._XMLTree.remove( header )\<close>, the header being the first child.\<close>

definition remove_first_child :: "element \<Rightarrow> element" where
  "remove_first_child e = Element (tag e) (text_of e) (tail e) (attrib e) (tl (children e))"

text \<open>
  Lines 133 to 135: the three reads from the work element, each assigned before the next
  is read, so that a missing one leaves the earlier assignments in place.
\<close>

definition read_work :: "converter \<Rightarrow> element \<Rightarrow> unit result \<times> converter" where
  "read_work self work =
     (case find_text work ''version'' of
        Inl err \<Rightarrow> (Raised err, self)
      | Inr v \<Rightarrow>
          let self1 = self\<lparr>PROGRAM_VERSION := v\<rparr> in
          (case find_text work ''date'' of
             Inl err \<Rightarrow> (Raised err, self1)
           | Inr d \<Rightarrow>
               let self2 = self1\<lparr>dateString := d\<rparr> in
               (case find_text work ''title'' of
                  Inl err \<Rightarrow> (Raised err, self2)
                | Inr t \<Rightarrow> (Returned (), self2\<lparr>titleString := t\<rparr>))))"

text \<open>Line 140, run whether or not the first child is the header.\<close>

definition header_tail_check :: "element \<Rightarrow> diagnostic list" where
  "header_tail_check header =
     (if strip_truthy (tail header)
      then [Log ERROR (UnexpectedTailAfterHeader (the (tail header)))] else [])"

text \<open>The checker calls of lines 120 to 122 and of lines 129 to 131.\<close>

definition header_checks :: "environment \<Rightarrow> element \<Rightarrow> diagnostic list \<times> py_error option" where
  "header_checks env header =
     run_checks [checkXMLNoText env header ''header'',
                 checkXMLNoTail env header ''header'',
                 checkXMLNoAttributes env header ''header'']"

definition work_checks :: "environment \<Rightarrow> element \<Rightarrow> diagnostic list \<times> py_error option" where
  "work_checks env work =
     run_checks [checkXMLNoText env work ''work in header'',
                 checkXMLNoTail env work ''work in header'',
                 checkXMLNoAttributes env work ''work in header'']"

text \<open>
  Lines 116 to 140: the branch of \<^verbatim>\<open>__load\<close> for a root element with the expected tag.
  The tree given has at least one child. A checker that raises ends the load after the
  header was assigned and taken out of the tree.
\<close>

definition load_header ::
  "environment \<Rightarrow> converter \<Rightarrow> element \<Rightarrow> unit result \<times> converter \<times> diagnostic list" where
  "load_header env self root =
     (let header = hd (children root) in
      if tag header = headerTag then
        let self1 = self\<lparr>XMLheader := Some header, XMLTree := Some (remove_first_child root)\<rparr>
        in
        (case header_checks env header of
           (log1, Some err) \<Rightarrow> (Raised err, self1, log1)
         | (log1, None) \<Rightarrow>
             if length (children header) > 1 then
               (Returned (), self1,
                log1 @ [Log INFO UnexpectedElementsInHeader] @ header_tail_check header)
             else if length (children header) = 0 then
               (Returned (), self1,
                log1 @ [Log INFO MissingWorkElementInHeader] @ header_tail_check header)
             else
               let work = hd (children header) in
               (case work_checks env work of
                  (logw, Some err) \<Rightarrow> (Raised err, self1, log1 @ logw)
                | (logw, None) \<Rightarrow>
                    if tag work = ''work'' then
                      (case read_work self1 work of
                         (Raised err, self2) \<Rightarrow> (Raised err, self2, log1 @ logw)
                       | (Returned u, self2) \<Rightarrow>
                           (Returned (), self2, log1 @ logw @ header_tail_check header))
                    else
                      (Returned (), self1,
                       log1 @ logw @ [Log WARNING MissingWorkElementInHeader]
                       @ header_tail_check header)))
      else
        (Returned (), self,
         [Log WARNING (MissingHeaderElement headerTag)] @ header_tail_check header))"

text \<open>
  \<^verbatim>\<open>__load\<close>. The three assertions: a non-empty path, no tree loaded yet (or a tree
  without children), and a parsed tree that is truthy, that is, has a child.
\<close>

definition load ::
  "environment \<Rightarrow> converter \<Rightarrow> string \<Rightarrow> unit result \<times> converter \<times> diagnostic list" where
  "load env self path =
     (if path = [] then (Raised AssertionError, self, [])
      else
        let self1 = self\<lparr>XMLFileOrFilepath := Some path\<rparr> in
        if \<not> (case XMLTree self1 of None \<Rightarrow> True | Some t \<Rightarrow> length (children t) = 0)
        then (Raised AssertionError, self1, [])
        else
          (case parse env path of
             Inl err \<Rightarrow> (Raised err, self1, [])
           | Inr root \<Rightarrow>
               let self2 = self1\<lparr>XMLTree := Some root\<rparr> in
               if children root = [] then (Raised AssertionError, self2, [])
               else if tag root = treeTag then load_header env self2 root
               else (Returned (), self2, [Log ERROR (ExpectedToLoad treeTag (tag root))])))"

subsection \<open>Validating\<close>

text \<open>
  \<^verbatim>\<open>uniqueDict\<close> maps \<^verbatim>\<open>"Element_"+name\<close> and \<^verbatim>\<open>"Attribute_"+name\<close> to the list of
  values seen so far. Lines 153 and 154 give every key that is read later an empty list,
  so the dict is a function that starts as the empty list everywhere.
\<close>

type_synonym uniqueDict = "string \<Rightarrow> pytext list"

text \<open>Lines 165 to 170.\<close>

definition check_compulsory_attributes :: "element \<Rightarrow> nat \<Rightarrow> diagnostic list" where
  "check_compulsory_attributes element j =
     concat (map (\<lambda>attributeName.
        let attributeValue = map_of (attrib element) attributeName in
        (if attributeValue = None
         then [Log ERROR (CompulsoryAttributeMissing attributeName (tag element) j)] else [])
        @ (if \<not> truthy attributeValue
           then [Log WARNING (CompulsoryAttributeBlank attributeName (tag element) j)] else []))
      compulsoryAttributes)"

text \<open>Lines 173 to 177.\<close>

definition check_optional_attributes :: "element \<Rightarrow> nat \<Rightarrow> diagnostic list" where
  "check_optional_attributes element j =
     concat (map (\<lambda>attributeName.
        let attributeValue = map_of (attrib element) attributeName in
        (if attributeValue \<noteq> None \<and> \<not> truthy attributeValue
         then [Log WARNING (OptionalAttributeBlank attributeName (tag element) j)] else []))
      optionalAttributes)"

text \<open>Lines 180 to 183.\<close>

definition check_additional_attributes :: "element \<Rightarrow> nat \<Rightarrow> diagnostic list" where
  "check_additional_attributes element j =
     concat (map (\<lambda>attributeName.
        let attributeValue = map_of (attrib element) attributeName in
        (if attributeName \<notin> set compulsoryAttributes \<and> attributeName \<notin> set optionalAttributes
         then [Log WARNING (AdditionalAttribute attributeName attributeValue (tag element) j)]
         else []))
      (map fst (attrib element)))"

text \<open>Lines 186 to 191.\<close>

fun check_unique_attributes ::
  "element \<Rightarrow> nat \<Rightarrow> string list \<Rightarrow> uniqueDict \<Rightarrow> diagnostic list \<times> uniqueDict" where
  "check_unique_attributes element j [] uniqueDict = ([], uniqueDict)"
| "check_unique_attributes element j (attributeName # names) uniqueDict =
     (let attributeValue = map_of (attrib element) attributeName in
      if attributeValue \<noteq> None then
        let here = (if attributeValue \<in> set (uniqueDict (''Attribute_'' @ attributeName))
                    then [Log ERROR (AttributeRepeated attributeValue attributeName (tag element) j)]
                    else []);
            (more, uniqueDict') = check_unique_attributes element j names
               (uniqueDict(''Attribute_'' @ attributeName :=
                  uniqueDict (''Attribute_'' @ attributeName) @ [attributeValue]))
        in (here @ more, uniqueDict')
      else check_unique_attributes element j names uniqueDict)"

text \<open>The three checker calls of lines 202 to 204 and 212 to 214.\<close>

definition check_found_element ::
  "environment \<Rightarrow> element \<Rightarrow> element \<Rightarrow> diagnostic list \<times> py_error option" where
  "check_found_element env element foundElement =
     run_checks
       [checkXMLNoTail env foundElement (tag foundElement @ '' in '' @ tag element),
        checkXMLNoAttributes env foundElement (tag foundElement @ '' in '' @ tag element),
        checkXMLNoSubelements env foundElement (tag foundElement @ '' in '' @ tag element)]"

text \<open>
  Lines 197 to 206, from a given element name of \<^verbatim>\<open>_compulsoryElements\<close> on. A checker
  that raises ends the loop.
\<close>

fun check_compulsory_elements ::
  "environment \<Rightarrow> element \<Rightarrow> pytext \<Rightarrow> nat \<Rightarrow> string list \<Rightarrow> diagnostic list \<times> py_error option" where
  "check_compulsory_elements env element ID j [] = ([], None)"
| "check_compulsory_elements env element ID j (elementName # names) =
     (case element_find element elementName of
        None \<Rightarrow>
          (case check_compulsory_elements env element ID j names of
             (later, raised) \<Rightarrow>
               (Log ERROR (CompulsoryElementMissing elementName ID j) # later, raised))
      | Some foundElement \<Rightarrow>
          (case check_found_element env element foundElement of
             (log1, Some err) \<Rightarrow> (log1, Some err)
           | (log1, None) \<Rightarrow>
               (case check_compulsory_elements env element ID j names of
                  (later, raised) \<Rightarrow>
                    (log1
                     @ (if \<not> truthy (text_of foundElement)
                        then [Log WARNING (CompulsoryElementBlank elementName ID j)] else [])
                     @ later, raised))))"

text \<open>Lines 209 to 216, from a given element name of \<^verbatim>\<open>_optionalElements\<close> on.\<close>

fun check_optional_elements ::
  "environment \<Rightarrow> element \<Rightarrow> pytext \<Rightarrow> nat \<Rightarrow> string list \<Rightarrow> diagnostic list \<times> py_error option" where
  "check_optional_elements env element ID j [] = ([], None)"
| "check_optional_elements env element ID j (elementName # names) =
     (case element_find element elementName of
        None \<Rightarrow> check_optional_elements env element ID j names
      | Some foundElement \<Rightarrow>
          (case check_found_element env element foundElement of
             (log1, Some err) \<Rightarrow> (log1, Some err)
           | (log1, None) \<Rightarrow>
               (case check_optional_elements env element ID j names of
                  (later, raised) \<Rightarrow>
                    (log1
                     @ (if \<not> truthy (text_of foundElement)
                        then [Log WARNING (OptionalElementBlank elementName ID j)] else [])
                     @ later, raised))))"

text \<open>Lines 219 to 221.\<close>

definition check_additional_elements :: "element \<Rightarrow> pytext \<Rightarrow> nat \<Rightarrow> diagnostic list" where
  "check_additional_elements element ID j =
     concat (map (\<lambda>subelement.
        (if tag subelement \<notin> set compulsoryElements \<and> tag subelement \<notin> set optionalElements
         then [Log WARNING (AdditionalElement (tag subelement) (text_of subelement) ID j)]
         else []))
      (children element))"

text \<open>Lines 224 to 229.\<close>

fun check_unique_elements ::
  "element \<Rightarrow> pytext \<Rightarrow> nat \<Rightarrow> string list \<Rightarrow> uniqueDict \<Rightarrow> diagnostic list \<times> uniqueDict" where
  "check_unique_elements element ID j [] uniqueDict = ([], uniqueDict)"
| "check_unique_elements element ID j (elementName # names) uniqueDict =
     (case element_find element elementName of
        None \<Rightarrow> check_unique_elements element ID j names uniqueDict
      | Some found \<Rightarrow>
          let here = (if text_of found \<in> set (uniqueDict (''Element_'' @ elementName))
                      then [Log ERROR (ElementRepeated (text_of found) elementName ID j)]
                      else []);
              (more, uniqueDict') = check_unique_elements element ID j names
                 (uniqueDict(''Element_'' @ elementName :=
                    uniqueDict (''Element_'' @ elementName) @ [text_of found]))
          in (here @ more, uniqueDict'))"

text \<open>Line 232.\<close>

definition element_tail_check :: "element \<Rightarrow> nat \<Rightarrow> diagnostic list" where
  "element_tail_check element j =
     (if strip_truthy (tail element)
      then [Log ERROR (UnexpectedTailAfterElement (the (tail element)) (tag element) j)]
      else [])"

text \<open>The checker calls of lines 159 to 162 on the record itself.\<close>

definition record_checks :: "environment \<Rightarrow> element \<Rightarrow> diagnostic list \<times> py_error option" where
  "record_checks env element =
     run_checks
       ([checkXMLNoText env element (tag element), checkXMLNoTail env element (tag element)]
        @ (if compulsoryAttributes = [] \<and> optionalAttributes = []
           then [checkXMLNoAttributes env element (tag element)] else [])
        @ (if compulsoryElements = [] \<and> optionalElements = []
           then [checkXMLNoSubelements env element (tag element)] else []))"

text \<open>
  Lines 158 to 232, one pass through the loop body for record \<open>j\<close>: the outcome, the
  diagnostics logged (also those logged before an exception) and \<^verbatim>\<open>uniqueDict\<close>.
\<close>

definition validate_element ::
  "environment \<Rightarrow> uniqueDict \<Rightarrow> nat \<Rightarrow> element \<Rightarrow> unit result \<times> diagnostic list \<times> uniqueDict" where
  "validate_element env uniqueDict j element =
     (if tag element = mainElementTag then
        (case record_checks env element of
           (log0, Some err) \<Rightarrow> (Raised err, log0, uniqueDict)
         | (log0, None) \<Rightarrow>
             let log1 = log0
                        @ check_compulsory_attributes element j
                        @ check_optional_attributes element j
                        @ check_additional_attributes element j;
                 (log2, uniqueDict1) =
                    check_unique_attributes element j uniqueAttributes uniqueDict
             in
             (case find_text element ''referenceAbbreviation'' of
                Inl err \<Rightarrow> (Raised err, log1 @ log2, uniqueDict1)
              | Inr ID \<Rightarrow>
                  (case check_compulsory_elements env element ID j compulsoryElements of
                     (log3, Some err) \<Rightarrow> (Raised err, log1 @ log2 @ log3, uniqueDict1)
                   | (log3, None) \<Rightarrow>
                       (case check_optional_elements env element ID j optionalElements of
                          (log4, Some err) \<Rightarrow>
                            (Raised err, log1 @ log2 @ log3 @ log4, uniqueDict1)
                        | (log4, None) \<Rightarrow>
                            let log5 = check_additional_elements element ID j;
                                (log6, uniqueDict2) =
                                   check_unique_elements element ID j uniqueElements uniqueDict1
                            in (Returned (),
                                log1 @ log2 @ log3 @ log4 @ log5 @ log6
                                @ element_tail_check element j,
                                uniqueDict2)))))
      else
        (Returned (),
         [Log WARNING (UnexpectedElement (tag element) j)] @ element_tail_check element j,
         uniqueDict))"

text \<open>\<^verbatim>\<open>for j,element in enumerate(self._XMLTree)\<close>, from record \<open>j\<close> on.\<close>

fun validate_loop ::
  "environment \<Rightarrow> uniqueDict \<Rightarrow> nat \<Rightarrow> element list \<Rightarrow> unit result \<times> diagnostic list" where
  "validate_loop env uniqueDict j [] = (Returned (), [])"
| "validate_loop env uniqueDict j (element # rest) =
     (case validate_element env uniqueDict j element of
        (Raised err, log1, uniqueDict') \<Rightarrow> (Raised err, log1)
      | (Returned u, log1, uniqueDict') \<Rightarrow>
          (case validate_loop env uniqueDict' (Suc j) rest of
             (outcome, log2) \<Rightarrow> (outcome, log1 @ log2)))"

text \<open>\<^verbatim>\<open>__validate\<close>: the assertion, the loop, and the check of the tree's own tail.\<close>

definition validate :: "environment \<Rightarrow> converter \<Rightarrow> unit result \<times> diagnostic list" where
  "validate env self =
     (case XMLTree self of
        None \<Rightarrow> (Raised AssertionError, [])
      | Some tree \<Rightarrow>
          if children tree = [] then (Raised AssertionError, [])
          else
            (case validate_loop env (\<lambda>key. []) 0 (children tree) of
               (Raised err, log1) \<Rightarrow> (Raised err, log1)
             | (Returned u, log1) \<Rightarrow>
                 (Returned (),
                  log1 @ (if strip_truthy (tail tree)
                          then [Log ERROR (UnexpectedTailAfterTree (the (tail tree)) (tag tree))]
                          else []))))"

subsection \<open>\<^verbatim>\<open>loadAndValidate\<close>\<close>

text \<open>\<^verbatim>\<open>os.path.join('../sourceXML', self._filenameBase + '.xml')\<close>\<close>

definition default_filepath :: string where
  "default_filepath = ''../sourceXML'' @ ''/'' @ filenameBase @ ''.xml''"

text \<open>
  The method returns \<^verbatim>\<open>self\<close>: the converter of the result. In the branch for a loaded
  instance the attribute \<^verbatim>\<open>__XMLFileOrFilepath\<close> is read only when a path was given.
\<close>

definition loadAndValidate ::
  "environment \<Rightarrow> converter \<Rightarrow> string option \<Rightarrow> unit result \<times> converter \<times> diagnostic list" where
  "loadAndValidate env self XMLFileOrFilepath' =
     (case XMLTree self of
        None \<Rightarrow>
          let path = (case XMLFileOrFilepath' of None \<Rightarrow> default_filepath | Some p \<Rightarrow> p) in
          (case load env self path of
             (Raised err, self1, log1) \<Rightarrow> (Raised err, self1, log1)
           | (Returned u, self1, log1) \<Rightarrow>
               if strictCheckingFlag env then
                 (case validate env self1 of
                    (outcome, log2) \<Rightarrow> (outcome, self1, log1 @ log2))
               else (Returned (), self1, log1))
      | Some tree \<Rightarrow>
          (case XMLFileOrFilepath' of
             None \<Rightarrow> (Returned (), self, [])
           | Some given \<Rightarrow>
               (case XMLFileOrFilepath self of
                  None \<Rightarrow> (Raised AttributeError, self, [])
                | Some loaded \<Rightarrow>
                    if given \<noteq> loaded then (Returned (), self, [Log ERROR (AlreadyLoaded given)])
                    else (Returned (), self, []))))"

subsection \<open>\<^verbatim>\<open>addToAllCodesDict\<close>\<close>



subsection \<open>Records as the properties speak of them\<close>

text \<open>
  The six fields of a record, read the way \<^verbatim>\<open>importDataToPython\<close> reads an optional
  field. For a compulsory field that is present this is the value the loop reads.
\<close>

definition mainAbbreviation_of :: "element \<Rightarrow> pytext" where
  "mainAbbreviation_of e = text_or_None e ''mainAbbreviation''"

definition versionName_of :: "element \<Rightarrow> pytext" where
  "versionName_of e = text_or_None e ''versionName''"

definition languageCode_of :: "element \<Rightarrow> pytext" where
  "languageCode_of e = text_or_None e ''languageCode''"

definition publisherName_of :: "element \<Rightarrow> pytext" where
  "publisherName_of e = text_or_None e ''publisherName''"

definition licence_of :: "element \<Rightarrow> pytext" where
  "licence_of e = text_or_None e ''licence''"

definition webLink_of :: "element \<Rightarrow> pytext" where
  "webLink_of e = text_or_None e ''webLink''"

text \<open>A record that carries the three compulsory elements.\<close>

definition complete :: "element \<Rightarrow> bool" where
  "complete e =
     (element_find e ''mainAbbreviation'' \<noteq> None \<and>
      element_find e ''versionName'' \<noteq> None \<and>
      element_find e ''languageCode'' \<noteq> None)"

text \<open>The loop body for a complete record, and the six entries it builds.\<close>

definition store_element :: "element \<Rightarrow> accumulators \<Rightarrow> accumulators" where
  "store_element e =
     store_record (mainAbbreviation_of e) (versionName_of e) (languageCode_of e)
       (publisherName_of e) (licence_of e) (webLink_of e)"

definition abbrev_entry_of :: "element \<Rightarrow> entry" where
  "abbrev_entry_of e =
     abbrev_entry (mainAbbreviation_of e) (versionName_of e) (languageCode_of e)
       (publisherName_of e) (licence_of e) (webLink_of e)"

definition name_entry_of :: "element \<Rightarrow> entry" where
  "name_entry_of e =
     name_entry (mainAbbreviation_of e) (versionName_of e) (languageCode_of e)
       (publisherName_of e) (licence_of e) (webLink_of e)"

definition language_entry_of :: "element \<Rightarrow> entry" where
  "language_entry_of e =
     language_entry (mainAbbreviation_of e) (versionName_of e) (languageCode_of e)
       (publisherName_of e) (licence_of e) (webLink_of e)"

definition publisher_entry_of :: "element \<Rightarrow> entry" where
  "publisher_entry_of e =
     publisher_entry (mainAbbreviation_of e) (versionName_of e) (languageCode_of e)
       (publisherName_of e) (licence_of e) (webLink_of e)"

definition licence_entry_of :: "element \<Rightarrow> entry" where
  "licence_entry_of e =
     licence_entry (mainAbbreviation_of e) (versionName_of e) (languageCode_of e)
       (publisherName_of e) (licence_of e) (webLink_of e)"

definition webLink_entry_of :: "element \<Rightarrow> entry" where
  "webLink_entry_of e =
     webLink_entry (mainAbbreviation_of e) (versionName_of e) (languageCode_of e)
       (publisherName_of e) (licence_of e) (webLink_of e)"

text \<open>\<^verbatim>\<open>AbbreviationsDict[key][field]\<close>, \<open>None\<close> where Python raises \<^verbatim>\<open>KeyError\<close>.\<close>

definition abbreviationIndex_field :: "datasets \<Rightarrow> pytext \<Rightarrow> string \<Rightarrow> pytext option" where
  "abbreviationIndex_field ds key field =
     (case map_of (AbbreviationsDict ds) key of
        None \<Rightarrow> None
      | Some ent \<Rightarrow> map_of ent field)"

text \<open>
  The cache of an instance agrees with its tree: what \<^verbatim>\<open>__DataSets\<close> holds, if
  anything, is what the records of the tree give. It holds of a new instance and is kept
  by both methods.
\<close>

definition cache_consistent :: "converter \<Rightarrow> bool" where
  "cache_consistent self =
     (case DataSets self of
        None \<Rightarrow> True
      | Some ds \<Rightarrow>
          (case XMLTree self of
             None \<Rightarrow> False
           | Some tree \<Rightarrow> build_datasets (children tree) = Inr ds))"

subsection \<open>Example documents\<close>

definition leaf :: "string \<Rightarrow> string \<Rightarrow> element" where
  "leaf name content = Element name (Some content) None [] []"

definition version_record :: "element list \<Rightarrow> element" where
  "version_record subelements = Element ''BibleVersionCodes'' None None [] subelements"

definition kjv :: element where
  "kjv = version_record
     [leaf ''mainAbbreviation'' ''KJV'', leaf ''versionName'' ''King James Version'',
      leaf ''languageCode'' ''en'', leaf ''licence'' ''Public Domain'']"

definition web :: element where
  "web = version_record
     [leaf ''mainAbbreviation'' ''WEB'', leaf ''versionName'' ''World English Bible'',
      leaf ''languageCode'' ''en'', leaf ''licence'' ''Public Domain'']"

definition kjv_revised :: element where
  "kjv_revised = version_record
     [leaf ''mainAbbreviation'' ''KJV'', leaf ''versionName'' ''King James Version 1769'',
      leaf ''languageCode'' ''en'']"

definition loaded :: "element list \<Rightarrow> converter" where
  "loaded records =
     init\<lparr>XMLTree := Some (Element ''BibleVersionCodes'' None None [] records),
          XMLFileOrFilepath := Some ''codes.xml''\<rparr>"

text \<open>The versionName the abbreviation index gives for a record of a list of records.\<close>

definition indexed_versionName :: "element list \<Rightarrow> element \<Rightarrow> pytext option" where
  "indexed_versionName records e =
     (case build_datasets records of
        Inl err \<Rightarrow> None
      | Inr ds \<Rightarrow> abbreviationIndex_field ds (mainAbbreviation_of e) ''versionName'')"

text \<open>
  A one-to-many index as the specification words it: under a key, the entries of the
  records that qualify for the key, in document order; no key without a member.
\<close>

definition grouped ::
  "(element \<Rightarrow> bool) \<Rightarrow> (element \<Rightarrow> pytext) \<Rightarrow> (element \<Rightarrow> entry) \<Rightarrow> element list
     \<Rightarrow> pytext \<Rightarrow> entry list option" where
  "grouped qualifies key_of entry_of records k =
     (let members = filter (\<lambda>e. qualifies e \<and> key_of e = k) records
      in if members = [] then None else Some (map entry_of members))"

text \<open>
  The fields of a record as an entry shows them: the three compulsory values, and each
  optional value that is truthy.
\<close>

definition record_fields :: "element \<Rightarrow> string \<Rightarrow> pytext option" where
  "record_fields e field =
     (if field = ''mainAbbreviation'' then Some (mainAbbreviation_of e)
      else if field = ''versionName'' then Some (versionName_of e)
      else if field = ''languageCode'' then Some (languageCode_of e)
      else if field = ''publisherName'' \<and> truthy (publisherName_of e)
        then Some (publisherName_of e)
      else if field = ''licence'' \<and> truthy (licence_of e) then Some (licence_of e)
      else if field = ''webLink'' \<and> truthy (webLink_of e) then Some (webLink_of e)
      else None)"

text \<open>A record with every sub-element of a given tag taken out.\<close>

definition remove_field :: "string \<Rightarrow> element \<Rightarrow> element" where
  "remove_field name e =
     Element (tag e) (text_of e) (tail e) (attrib e) (filter (\<lambda>c. tag c \<noteq> name) (children e))"

text \<open>The secondary index that is keyed by an optional field.\<close>

definition index_keyed_by :: "string \<Rightarrow> datasets \<Rightarrow> (pytext \<times> entry list) list" where
  "index_keyed_by name ds =
     (if name = ''publisherName'' then PublisherDict ds
      else if name = ''licence'' then LicenceDict ds
      else WebLinkDict ds)"

definition kjv_blank_licence :: element where
  "kjv_blank_licence = version_record
     [leaf ''mainAbbreviation'' ''KJV'', leaf ''versionName'' ''King James Version'',
      leaf ''languageCode'' ''en'', Element ''licence'' None None [] []]"

subsection \<open>Notions and examples for loading\<close>

text \<open>The instance once a path and a tree are assigned.\<close>

definition with_tree :: "converter \<Rightarrow> string \<Rightarrow> element \<Rightarrow> converter" where
  "with_tree self path tree = self\<lparr>XMLFileOrFilepath := Some path, XMLTree := Some tree\<rparr>"

text \<open>
  An environment whose only document is at \<^verbatim>\<open>codes.xml\<close> and whose checkers behave as
  those of the library: a checker that finds what it looks for (text, a tail, an
  attribute, a sub-element) reports it and, under the strict flag, raises
  \<^verbatim>\<open>NameError\<close>.
\<close>

definition report :: "bool \<Rightarrow> bool \<Rightarrow> string \<Rightarrow> check_result" where
  "report strict found message =
     (if found then ([message], if strict then Some NameError else None) else ([], None))"

definition environment_of :: "element \<Rightarrow> bool \<Rightarrow> environment" where
  "environment_of root strict =
     \<lparr> parse = (\<lambda>path. if path = ''codes.xml'' then Inr root else Inl ParseFailure),
       strictCheckingFlag = strict,
       checkXMLNoText =
         (\<lambda>e location. report strict (strip_truthy (text_of e)) (''Unexpected text in '' @ location)),
       checkXMLNoTail =
         (\<lambda>e location. report strict (strip_truthy (tail e)) (''Unexpected tail in '' @ location)),
       checkXMLNoAttributes =
         (\<lambda>e location. report strict (attrib e \<noteq> []) (''Unexpected attribute in '' @ location)),
       checkXMLNoSubelements =
         (\<lambda>e location. report strict (children e \<noteq> []) (''Unexpected sub-element in '' @ location)) \<rparr>"

definition full_header :: element where
  "full_header = Element ''header'' None None []
     [Element ''work'' None None []
        [leaf ''version'' ''0.01'', leaf ''date'' ''2022-05-18'',
         leaf ''title'' ''Bible version codes'']]"

definition undated_header :: element where
  "undated_header = Element ''header'' None None []
     [Element ''work'' None None []
        [leaf ''version'' ''0.01'', leaf ''title'' ''Bible version codes'']]"

definition document :: "string \<Rightarrow> element list \<Rightarrow> element" where
  "document root_tag subelements = Element root_tag None None [] subelements"

subsection \<open>Notions and examples for validating\<close>




definition kjv_no_language :: element where
  "kjv_no_language = version_record
     [leaf ''mainAbbreviation'' ''KJV'', leaf ''versionName'' ''King James Version'']"



section \<open>Properties of the import\<close>

lemma import_element_complete:
  "import_element a e = (if complete e then Inr (store_element e a) else Inl AttributeError)"
  by (auto simp: import_element_def complete_def find_text_def store_element_def
      mainAbbreviation_of_def versionName_of_def languageCode_of_def publisherName_of_def
      licence_of_def webLink_of_def text_or_None_def split: option.splits)

lemma import_loop_Inr:
  "import_loop a es = Inr a' \<longleftrightarrow>
     (\<forall>e\<in>set es. complete e) \<and> a' = foldl (\<lambda>a e. store_element e a) a es"
  by (induction es arbitrary: a) (auto simp: import_element_complete)

lemma import_loop_Inl:
  "import_loop a es = Inl err \<longleftrightarrow> (\<exists>e\<in>set es. \<not> complete e) \<and> err = AttributeError"
  by (induction es arbitrary: a) (auto simp: import_element_complete)

lemma myAbbrevList_foldl:
  "myAbbrevList (foldl (\<lambda>a e. store_element e a) a es) =
     myAbbrevList a @ map mainAbbreviation_of es"
  by (induction es arbitrary: a) (auto simp: store_element_def store_record_def)

lemma myAbbrevDict_snoc:
  "myAbbrevDict (store_element e a) =
     AList.update (mainAbbreviation_of e) (abbrev_entry_of e) (myAbbrevDict a)"
  by (simp add: store_element_def store_record_def abbrev_entry_of_def)

lemma distinct_myAbbrevDict:
  "distinct (map fst (myAbbrevDict a)) \<Longrightarrow>
   distinct (map fst (myAbbrevDict (foldl (\<lambda>a e. store_element e a) a es)))"
  by (induction es arbitrary: a) (auto simp: myAbbrevDict_snoc distinct_update)

lemma keyset_myAbbrevDict:
  "fst ` set (myAbbrevDict (foldl (\<lambda>a e. store_element e a) a es)) =
     fst ` set (myAbbrevDict a) \<union> mainAbbreviation_of ` set es"
  by (induction es arbitrary: a) (auto simp: myAbbrevDict_snoc dom_update)

lemma length_myAbbrevDict:
  "length (myAbbrevDict (foldl (\<lambda>a e. store_element e a) no_accumulators es)) =
     card (mainAbbreviation_of ` set es)"
proof -
  let ?d = "myAbbrevDict (foldl (\<lambda>a e. store_element e a) no_accumulators es)"
  have d: "distinct (map fst ?d)"
    by (rule distinct_myAbbrevDict) (simp add: no_accumulators_def)
  have "length ?d = length (map fst ?d)" by simp
  also have "\<dots> = card (set (map fst ?d))"
    using d by (simp only: distinct_card)
  also have "set (map fst ?d) = mainAbbreviation_of ` set es"
    using keyset_myAbbrevDict [of no_accumulators es] by (simp add: no_accumulators_def)
  finally show ?thesis .
qed

lemma myAbbrevDict_last_wins:
  "mainAbbreviation_of e \<notin> mainAbbreviation_of ` set after \<Longrightarrow>
   map_of (myAbbrevDict (foldl (\<lambda>a e. store_element e a) a (before @ e # after)))
     (mainAbbreviation_of e) = Some (abbrev_entry_of e)"
proof (induction after rule: rev_induct)
  case Nil
  show ?case by (simp add: myAbbrevDict_snoc update_conv')
next
  case (snoc x xs)
  have split: "before @ e # xs @ [x] = (before @ e # xs) @ [x]" by simp
  from snoc show ?case
    unfolding split foldl_append by (simp add: myAbbrevDict_snoc update_conv')
qed

lemma build_datasets_Inr:
  "build_datasets es = Inr ds \<Longrightarrow>
     (\<forall>e\<in>set es. complete e) \<and>
     \<not> (2 \<le> length es \<and> None \<in> mainAbbreviation_of ` set es) \<and>
     ds = make_datasets (sort (map mainAbbreviation_of es))
            (foldl (\<lambda>a e. store_element e a) no_accumulators es)"
  by (auto simp: build_datasets_def sorted_py_def import_loop_Inr myAbbrevList_foldl
      no_accumulators_def split: sum.splits if_splits)

lemma importDataToPython_Returned:
  assumes "cache_consistent self" and "XMLTree self = Some tree"
    and "importDataToPython self = (Returned ds, self')"
  shows "build_datasets (children tree) = Inr ds"
  using assms
  by (auto simp: importDataToPython_def cache_consistent_def
      split: option.splits if_splits sum.splits)

lemma abbrev_entry_versionName:
  "map_of (abbrev_entry_of e) ''versionName'' = Some (versionName_of e)"
  by (simp add: abbrev_entry_of_def abbrev_entry_def set_if_truthy_def update_conv')


lemma build_datasets_complete:
  assumes "\<forall>e\<in>set es. complete e"
    and "\<not> (2 \<le> length es \<and> None \<in> mainAbbreviation_of ` set es)"
  shows "build_datasets es =
           Inr (make_datasets (sort (map mainAbbreviation_of es))
                  (foldl (\<lambda>a e. store_element e a) no_accumulators es))"
proof -
  have "import_loop no_accumulators es =
          Inr (foldl (\<lambda>a e. store_element e a) no_accumulators es)"
    using assms(1) by (simp add: import_loop_Inr)
  with assms(2) show ?thesis
    by (simp add: build_datasets_def sorted_py_def myAbbrevList_foldl no_accumulators_def)
qed

lemma importDataToPython_fresh:
  assumes "XMLTree self = Some tree" and "children tree \<noteq> []" and "DataSets self = None"
    and "build_datasets (children tree) = Inr ds"
  shows "importDataToPython self = (Returned ds, self\<lparr>DataSets := Some ds\<rparr>)"
  using assms by (simp add: importDataToPython_def)

lemma complete_examples: "complete kjv" "complete web" "complete kjv_revised"
  by (simp_all add: complete_def kjv_def web_def kjv_revised_def version_record_def leaf_def
      element_find_def)

lemma mainAbbreviation_examples:
  "mainAbbreviation_of kjv = Some ''KJV''" "mainAbbreviation_of web = Some ''WEB''"
  "mainAbbreviation_of kjv_revised = Some ''KJV''"
  by (simp_all add: mainAbbreviation_of_def text_or_None_def kjv_def web_def kjv_revised_def
      version_record_def leaf_def element_find_def)

lemma versionName_examples:
  "versionName_of kjv = Some ''King James Version''"
  "versionName_of web = Some ''World English Bible''"
  "versionName_of kjv_revised = Some ''King James Version 1769''"
  by (simp_all add: versionName_of_def text_or_None_def kjv_def web_def kjv_revised_def
      version_record_def leaf_def element_find_def)

lemma loaded_simps:
  "XMLTree (loaded es) = Some (Element ''BibleVersionCodes'' None None [] es)"
  "DataSets (loaded es) = None"
  "cache_consistent (loaded es)"
  by (simp_all add: loaded_def init_def cache_consistent_def)

text \<open>
  C4. The abbreviation list of a catalogue is the sorted list of the mainAbbreviation
  values of all its records, duplicates kept; when these values are distinct, the records,
  the abbreviation list and the abbreviation index have the same length.
\<close>

theorem abbreviationList_sorted_and_lengths:
  assumes "cache_consistent self" and "XMLTree self = Some tree"
    and "importDataToPython self = (Returned ds, self')"
  shows "AbbreviationsList ds = sort (map mainAbbreviation_of (children tree)) \<and>
         (distinct (map mainAbbreviation_of (children tree)) \<longrightarrow>
            length (children tree) = length (AbbreviationsList ds) \<and>
            length (AbbreviationsList ds) = length (AbbreviationsDict ds))"
proof -
  let ?es = "children tree"
  from assms have "build_datasets ?es = Inr ds"
    by (rule importDataToPython_Returned)
  then have ds: "ds = make_datasets (sort (map mainAbbreviation_of ?es))
                        (foldl (\<lambda>a e. store_element e a) no_accumulators ?es)"
    by (auto dest!: build_datasets_Inr)
  have sorted: "AbbreviationsList ds = sort (map mainAbbreviation_of ?es)"
    by (simp add: ds make_datasets_def)
  have "length (AbbreviationsDict ds) = card (mainAbbreviation_of ` set ?es)"
    by (simp add: ds make_datasets_def length_myAbbrevDict)
  moreover have "distinct (map mainAbbreviation_of ?es) \<Longrightarrow>
                 card (mainAbbreviation_of ` set ?es) = length ?es"
    using distinct_card [of "map mainAbbreviation_of ?es"] by simp
  ultimately show ?thesis
    using sorted by simp
qed

theorem abbreviationList_sorted_and_lengths_witness:
  "\<exists>ds self'. importDataToPython (loaded [web, kjv]) = (Returned ds, self') \<and>
     distinct (map mainAbbreviation_of [web, kjv]) \<and>
     AbbreviationsList ds = [Some ''KJV'', Some ''WEB''] \<and>
     length (AbbreviationsDict ds) = 2"
proof -
  let ?tree = "Element ''BibleVersionCodes'' None None [] [web, kjv]"
  have "build_datasets (children ?tree) =
          Inr (make_datasets (sort (map mainAbbreviation_of [web, kjv]))
                 (foldl (\<lambda>a e. store_element e a) no_accumulators [web, kjv]))"
    (is "_ = Inr ?ds")
    by (simp add: build_datasets_complete complete_examples mainAbbreviation_examples
        del: foldl_Cons)
  then have run: "importDataToPython (loaded [web, kjv]) =
                    (Returned ?ds, (loaded [web, kjv])\<lparr>DataSets := Some ?ds\<rparr>)"
    by (intro importDataToPython_fresh [where tree = ?tree]) (simp_all add: loaded_simps)
  have order: "sort [Some ''WEB'', Some ''KJV''] = [Some ''KJV'', Some ''WEB'']"
    by code_simp
  from abbreviationList_sorted_and_lengths [OF loaded_simps(3) loaded_simps(1) run]
  show ?thesis
    using run by (simp add: mainAbbreviation_examples order)
qed

text \<open>
  C5. The abbreviation index gives, under a record's mainAbbreviation, that record's
  versionName, for every record that no later record shares its mainAbbreviation with.
\<close>

theorem versionName_round_trip:
  assumes "cache_consistent self" and "XMLTree self = Some tree"
    and "importDataToPython self = (Returned ds, self')"
    and "children tree = before @ e # after"
    and "mainAbbreviation_of e \<notin> mainAbbreviation_of ` set after"
  shows "abbreviationIndex_field ds (mainAbbreviation_of e) ''versionName'' =
           Some (versionName_of e)"
proof -
  from assms(1-3) have "build_datasets (children tree) = Inr ds"
    by (rule importDataToPython_Returned)
  then have "AbbreviationsDict ds =
               myAbbrevDict (foldl (\<lambda>a e. store_element e a) no_accumulators (children tree))"
    by (auto dest!: build_datasets_Inr simp: make_datasets_def)
  with assms(4) have "map_of (AbbreviationsDict ds) (mainAbbreviation_of e) =
                        Some (abbrev_entry_of e)"
    using myAbbrevDict_last_wins [OF assms(5), of no_accumulators before] by simp
  then show ?thesis
    by (simp add: abbreviationIndex_field_def abbrev_entry_versionName)
qed

theorem versionName_round_trip_witness:
  "\<exists>ds self'. importDataToPython (loaded [kjv, web, kjv_revised]) = (Returned ds, self') \<and>
     mainAbbreviation_of kjv_revised \<notin> mainAbbreviation_of ` set [] \<and>
     abbreviationIndex_field ds (Some ''KJV'') ''versionName'' =
       Some (Some ''King James Version 1769'')"
proof -
  let ?es = "[kjv, web, kjv_revised]"
  let ?tree = "Element ''BibleVersionCodes'' None None [] ?es"
  have "build_datasets (children ?tree) =
          Inr (make_datasets (sort (map mainAbbreviation_of ?es))
                 (foldl (\<lambda>a e. store_element e a) no_accumulators ?es))"
    (is "_ = Inr ?ds")
    by (simp add: build_datasets_complete complete_examples mainAbbreviation_examples
        del: foldl_Cons)
  then have run: "importDataToPython (loaded ?es) =
                    (Returned ?ds, (loaded ?es)\<lparr>DataSets := Some ?ds\<rparr>)"
    by (intro importDataToPython_fresh [where tree = ?tree]) (simp_all add: loaded_simps)
  have "children ?tree = [kjv, web] @ kjv_revised # []" by simp
  from versionName_round_trip [OF loaded_simps(3) loaded_simps(1) run this]
  show ?thesis
    using run by (simp add: mainAbbreviation_examples versionName_examples)
qed

theorem versionName_round_trip_counterexample:
  "indexed_versionName [kjv, kjv_revised] kjv = Some (Some ''King James Version 1769'') \<and>
   versionName_of kjv = Some ''King James Version''"
proof -
  have "build_datasets [kjv, kjv_revised] =
          Inr (make_datasets (sort (map mainAbbreviation_of [kjv, kjv_revised]))
                 (foldl (\<lambda>a e. store_element e a) no_accumulators [kjv, kjv_revised]))"
    by (simp add: build_datasets_complete complete_examples mainAbbreviation_examples
        del: foldl_Cons)
  moreover have "map_of (myAbbrevDict
       (foldl (\<lambda>a e. store_element e a) no_accumulators ([kjv] @ kjv_revised # [])))
       (mainAbbreviation_of kjv_revised) = Some (abbrev_entry_of kjv_revised)"
    by (rule myAbbrevDict_last_wins) simp
  ultimately show ?thesis
    by (simp add: indexed_versionName_def abbreviationIndex_field_def make_datasets_def
        mainAbbreviation_examples versionName_examples abbrev_entry_versionName
        del: foldl_Cons)
qed


section \<open>Grouped indices\<close>

lemma map_of_dd_append:
  "map_of (dd_append k ent d) k' =
     (if k' = k then Some ((case map_of d k of None \<Rightarrow> [] | Some ents \<Rightarrow> ents) @ [ent])
      else map_of d k')"
  by (simp add: dd_append_def update_conv' split: option.splits)

lemma map_of_grouped_foldl:
  "map_of (foldl (\<lambda>d e. if q e then dd_append (f e) (g e) d else d) d0 es) k =
     (case grouped q f g es k of
        None \<Rightarrow> map_of d0 k
      | Some new \<Rightarrow> Some ((case map_of d0 k of None \<Rightarrow> [] | Some ents \<Rightarrow> ents) @ new))"
proof (induction es rule: rev_induct)
  case Nil
  show ?case by (simp add: grouped_def)
next
  case (snoc x xs)
  then show ?case
    by (auto simp: grouped_def Let_def map_of_dd_append split: option.splits if_splits)
qed

lemma map_of_grouped_from_empty:
  "map_of (foldl (\<lambda>d e. if q e then dd_append (f e) (g e) d else d) [] es) k =
     grouped q f g es k"
  by (simp add: map_of_grouped_foldl split: option.splits)

lemma myNameDict_foldl:
  "myNameDict (foldl (\<lambda>a e. store_element e a) a es) =
     foldl (\<lambda>d e. if True then dd_append (versionName_of e) (name_entry_of e) d else d)
       (myNameDict a) es"
  by (induction es arbitrary: a)
     (simp_all add: store_element_def store_record_def name_entry_of_def)

lemma myLanguageDict_foldl:
  "myLanguageDict (foldl (\<lambda>a e. store_element e a) a es) =
     foldl (\<lambda>d e. if True then dd_append (languageCode_of e) (language_entry_of e) d else d)
       (myLanguageDict a) es"
  by (induction es arbitrary: a)
     (simp_all add: store_element_def store_record_def language_entry_of_def)

lemma myPublisherDict_foldl:
  "myPublisherDict (foldl (\<lambda>a e. store_element e a) a es) =
     foldl (\<lambda>d e. if truthy (publisherName_of e)
                   then dd_append (publisherName_of e) (publisher_entry_of e) d else d)
       (myPublisherDict a) es"
  by (induction es arbitrary: a)
     (simp_all add: store_element_def store_record_def publisher_entry_of_def)

lemma myLicenseDict_foldl:
  "myLicenseDict (foldl (\<lambda>a e. store_element e a) a es) =
     foldl (\<lambda>d e. if truthy (licence_of e)
                   then dd_append (licence_of e) (licence_entry_of e) d else d)
       (myLicenseDict a) es"
  by (induction es arbitrary: a)
     (simp_all add: store_element_def store_record_def licence_entry_of_def)

lemma myWebLinkDict_foldl:
  "myWebLinkDict (foldl (\<lambda>a e. store_element e a) a es) =
     foldl (\<lambda>d e. if truthy (webLink_of e)
                   then dd_append (webLink_of e) (webLink_entry_of e) d else d)
       (myWebLinkDict a) es"
  by (induction es arbitrary: a)
     (simp_all add: store_element_def store_record_def webLink_entry_of_def)

lemma build_datasets_indices:
  assumes "build_datasets es = Inr ds"
  shows "map_of (NamesDict ds) k = grouped (\<lambda>e. True) versionName_of name_entry_of es k"
    and "map_of (LanguageDict ds) k = grouped (\<lambda>e. True) languageCode_of language_entry_of es k"
    and "map_of (PublisherDict ds) k =
           grouped (\<lambda>e. truthy (publisherName_of e)) publisherName_of publisher_entry_of es k"
    and "map_of (LicenceDict ds) k =
           grouped (\<lambda>e. truthy (licence_of e)) licence_of licence_entry_of es k"
    and "map_of (WebLinkDict ds) k =
           grouped (\<lambda>e. truthy (webLink_of e)) webLink_of webLink_entry_of es k"
proof -
  from assms have ds: "ds = make_datasets (sort (map mainAbbreviation_of es))
                        (foldl (\<lambda>a e. store_element e a) no_accumulators es)"
    by (auto dest!: build_datasets_Inr)
  show "map_of (NamesDict ds) k = grouped (\<lambda>e. True) versionName_of name_entry_of es k"
    unfolding ds make_datasets_def
    using map_of_grouped_from_empty [of "\<lambda>e. True" versionName_of name_entry_of es k]
    by (simp add: myNameDict_foldl no_accumulators_def)
  show "map_of (LanguageDict ds) k = grouped (\<lambda>e. True) languageCode_of language_entry_of es k"
    unfolding ds make_datasets_def
    using map_of_grouped_from_empty [of "\<lambda>e. True" languageCode_of language_entry_of es k]
    by (simp add: myLanguageDict_foldl no_accumulators_def)
  show "map_of (PublisherDict ds) k =
           grouped (\<lambda>e. truthy (publisherName_of e)) publisherName_of publisher_entry_of es k"
    unfolding ds make_datasets_def
    by (simp add: myPublisherDict_foldl no_accumulators_def map_of_grouped_from_empty)
  show "map_of (LicenceDict ds) k =
           grouped (\<lambda>e. truthy (licence_of e)) licence_of licence_entry_of es k"
    unfolding ds make_datasets_def
    by (simp add: myLicenseDict_foldl no_accumulators_def map_of_grouped_from_empty)
  show "map_of (WebLinkDict ds) k =
           grouped (\<lambda>e. truthy (webLink_of e)) webLink_of webLink_entry_of es k"
    unfolding ds make_datasets_def
    by (simp add: myWebLinkDict_foldl no_accumulators_def map_of_grouped_from_empty)
qed


lemma languageCode_examples:
  "languageCode_of kjv = Some ''en''" "languageCode_of web = Some ''en''"
  by (simp_all add: languageCode_of_def text_or_None_def kjv_def web_def
      version_record_def leaf_def element_find_def)

lemma licence_examples:
  "licence_of kjv = Some ''Public Domain''" "licence_of web = Some ''Public Domain''"
  by (simp_all add: licence_of_def text_or_None_def kjv_def web_def
      version_record_def leaf_def element_find_def)

lemma map_of_set_if_truthy:
  "map_of (set_if_truthy name v ent) =
     (if truthy v then (map_of ent)(name \<mapsto> v) else map_of ent)"
  by (simp add: set_if_truthy_def update_conv')

lemma entries_hold_the_other_fields:
  "map_of (name_entry_of e) = (record_fields e)(''versionName'' := None)"
  "map_of (language_entry_of e) = (record_fields e)(''languageCode'' := None)"
  "map_of (publisher_entry_of e) = (record_fields e)(''publisherName'' := None)"
  "map_of (licence_entry_of e) = (record_fields e)(''licence'' := None)"
  "map_of (webLink_entry_of e) = (record_fields e)(''webLink'' := None)"
  by (auto simp: fun_eq_iff record_fields_def map_of_set_if_truthy
      name_entry_of_def name_entry_def language_entry_of_def language_entry_def
      publisher_entry_of_def publisher_entry_def licence_entry_of_def licence_entry_def
      webLink_entry_of_def webLink_entry_def)

lemma example_entries:
  "language_entry_of kjv =
     [(''mainAbbreviation'', Some ''KJV''), (''versionName'', Some ''King James Version''),
      (''licence'', Some ''Public Domain'')]"
  "language_entry_of web =
     [(''mainAbbreviation'', Some ''WEB''), (''versionName'', Some ''World English Bible''),
      (''licence'', Some ''Public Domain'')]"
  "licence_entry_of kjv =
     [(''mainAbbreviation'', Some ''KJV''), (''versionName'', Some ''King James Version''),
      (''languageCode'', Some ''en'')]"
  "licence_entry_of web =
     [(''mainAbbreviation'', Some ''WEB''), (''versionName'', Some ''World English Bible''),
      (''languageCode'', Some ''en'')]"
  by (simp_all add: language_entry_of_def language_entry_def licence_entry_of_def
      licence_entry_def set_if_truthy_def truthy_def mainAbbreviation_of_def
      versionName_of_def languageCode_of_def publisherName_of_def licence_of_def
      webLink_of_def text_or_None_def element_find_def kjv_def web_def version_record_def
      leaf_def)

text \<open>
  C6. Each of the five secondary indices holds, under every key, one entry for each
  record that qualifies for the key, in document order, however many records share the
  key; a key is there as soon as one record qualifies for it. Every record qualifies for
  its versionName and its languageCode; it qualifies for its publisherName, licence or
  webLink when that value is truthy. The entry of a record in an index holds the fields
  of the record other than the key of the index: its three compulsory values and its
  truthy optional values.
\<close>

theorem grouped_indices_keep_every_member:
  assumes "cache_consistent self" and "XMLTree self = Some tree"
    and "importDataToPython self = (Returned ds, self')"
  shows "map_of (NamesDict ds) k =
           grouped (\<lambda>e. True) versionName_of name_entry_of (children tree) k \<and>
         map_of (LanguageDict ds) k =
           grouped (\<lambda>e. True) languageCode_of language_entry_of (children tree) k \<and>
         map_of (PublisherDict ds) k =
           grouped (\<lambda>e. truthy (publisherName_of e)) publisherName_of publisher_entry_of
             (children tree) k \<and>
         map_of (LicenceDict ds) k =
           grouped (\<lambda>e. truthy (licence_of e)) licence_of licence_entry_of (children tree) k \<and>
         map_of (WebLinkDict ds) k =
           grouped (\<lambda>e. truthy (webLink_of e)) webLink_of webLink_entry_of (children tree) k \<and>
         map_of (name_entry_of e) = (record_fields e)(''versionName'' := None) \<and>
         map_of (language_entry_of e) = (record_fields e)(''languageCode'' := None) \<and>
         map_of (publisher_entry_of e) = (record_fields e)(''publisherName'' := None) \<and>
         map_of (licence_entry_of e) = (record_fields e)(''licence'' := None) \<and>
         map_of (webLink_entry_of e) = (record_fields e)(''webLink'' := None)"
proof -
  from assms have "build_datasets (children tree) = Inr ds"
    by (rule importDataToPython_Returned)
  from build_datasets_indices [OF this] show ?thesis
    by (simp add: entries_hold_the_other_fields)
qed

theorem grouped_indices_keep_every_member_witness:
  "\<exists>ds self'. importDataToPython (loaded [kjv, web]) = (Returned ds, self') \<and>
     map_of (LanguageDict ds) (Some ''en'') =
       Some [[(''mainAbbreviation'', Some ''KJV''), (''versionName'', Some ''King James Version''),
              (''licence'', Some ''Public Domain'')],
             [(''mainAbbreviation'', Some ''WEB''), (''versionName'', Some ''World English Bible''),
              (''licence'', Some ''Public Domain'')]] \<and>
     map_of (LicenceDict ds) (Some ''Public Domain'') =
       Some [[(''mainAbbreviation'', Some ''KJV''), (''versionName'', Some ''King James Version''),
              (''languageCode'', Some ''en'')],
             [(''mainAbbreviation'', Some ''WEB''), (''versionName'', Some ''World English Bible''),
              (''languageCode'', Some ''en'')]] \<and>
     map_of (PublisherDict ds) (Some ''Public Domain'') = None \<and>
     map_of (language_entry_of kjv) ''mainAbbreviation'' = Some (Some ''KJV'') \<and>
     map_of (language_entry_of kjv) ''languageCode'' = None"
proof -
  let ?es = "[kjv, web]"
  let ?tree = "Element ''BibleVersionCodes'' None None [] ?es"
  have "build_datasets (children ?tree) =
          Inr (make_datasets (sort (map mainAbbreviation_of ?es))
                 (foldl (\<lambda>a e. store_element e a) no_accumulators ?es))"
    (is "_ = Inr ?ds")
    by (simp add: build_datasets_complete complete_examples mainAbbreviation_examples
        del: foldl_Cons)
  then have run: "importDataToPython (loaded ?es) =
                    (Returned ?ds, (loaded ?es)\<lparr>DataSets := Some ?ds\<rparr>)"
    by (intro importDataToPython_fresh [where tree = ?tree]) (simp_all add: loaded_simps)
  have pub: "publisherName_of kjv = None" "publisherName_of web = None"
    by (simp_all add: publisherName_of_def text_or_None_def kjv_def web_def
        version_record_def leaf_def element_find_def)
  note all = grouped_indices_keep_every_member [OF loaded_simps(3) loaded_simps(1) run]
  have "map_of (LanguageDict ?ds) (Some ''en'') =
          Some [language_entry_of kjv, language_entry_of web]"
    using all [of "Some ''en''"]
    by (simp add: grouped_def languageCode_examples del: foldl_Cons)
  moreover have "map_of (LicenceDict ?ds) (Some ''Public Domain'') =
          Some [licence_entry_of kjv, licence_entry_of web]"
    using all [of "Some ''Public Domain''"]
    by (simp add: grouped_def licence_examples truthy_def del: foldl_Cons)
  moreover have "map_of (PublisherDict ?ds) (Some ''Public Domain'') = None"
    using all [of "Some ''Public Domain''"]
    by (simp add: grouped_def pub truthy_def del: foldl_Cons)
  moreover have "map_of (language_entry_of kjv) ''mainAbbreviation'' = Some (Some ''KJV'') \<and>
     map_of (language_entry_of kjv) ''languageCode'' = None"
    using all [of None kjv]
    by (simp add: record_fields_def mainAbbreviation_examples)
  ultimately show ?thesis
    using run by (simp add: example_entries del: foldl_Cons)
qed

section \<open>Blank optional fields\<close>

lemma find_filter:
  "List.find P (filter Q xs) = List.find (\<lambda>x. Q x \<and> P x) xs"
  by (induction xs) simp_all

lemma element_find_remove_field:
  "element_find (remove_field name e) name' =
     (if name' = name then None else element_find e name')"
proof (cases "name' = name")
  case True
  then show ?thesis
    by (simp add: element_find_def remove_field_def find_filter find_None_iff)
next
  case False
  then have "(\<lambda>c. tag c \<noteq> name \<and> tag c = name') = (\<lambda>c. tag c = name')"
    by auto
  with False show ?thesis
    by (simp add: element_find_def remove_field_def find_filter)
qed

lemma set_if_truthy_falsy: "\<not> truthy v \<Longrightarrow> set_if_truthy name v ent = ent"
  by (simp add: set_if_truthy_def)

lemma store_record_falsy:
  "\<not> truthy p \<Longrightarrow> store_record m v l p c w a = store_record m v l None c w a"
  "\<not> truthy c \<Longrightarrow> store_record m v l p c w a = store_record m v l p None w a"
  "\<not> truthy w \<Longrightarrow> store_record m v l p c w a = store_record m v l p c None a"
  by (simp_all add: store_record_def abbrev_entry_def name_entry_def language_entry_def
      publisher_entry_def licence_entry_def webLink_entry_def set_if_truthy_def truthy_def)

lemma import_element_remove_blank:
  assumes "name \<in> set optionalElements" and "element_find e name = Some c"
    and "\<not> truthy (text_of c)"
  shows "import_element a (remove_field name e) = import_element a e"
proof -
  have blank: "\<not> truthy (text_or_None e name)"
    using assms(2,3) by (simp add: text_or_None_def)
  from assms(1) consider "name = ''publisherName''" | "name = ''licence''" | "name = ''webLink''"
    by (auto simp: optionalElements_def)
  then show ?thesis
  proof cases
    case 1
    with blank show ?thesis
      using store_record_falsy(1) [of "text_or_None e ''publisherName''"]
      by (simp add: import_element_def find_text_def text_or_None_def
          element_find_remove_field split: option.splits)
  next
    case 2
    with blank show ?thesis
      using store_record_falsy(2) [of "text_or_None e ''licence''"]
      by (simp add: import_element_def find_text_def text_or_None_def
          element_find_remove_field split: option.splits)
  next
    case 3
    with blank show ?thesis
      using store_record_falsy(3) [of "text_or_None e ''webLink''"]
      by (simp add: import_element_def find_text_def text_or_None_def
          element_find_remove_field split: option.splits)
  qed
qed

lemma import_loop_append:
  "import_loop a (xs @ ys) =
     (case import_loop a xs of Inl err \<Rightarrow> Inl err | Inr a' \<Rightarrow> import_loop a' ys)"
  by (induction xs arbitrary: a) (auto split: sum.splits)

lemma import_loop_remove_blank:
  assumes "name \<in> set optionalElements" and "element_find e name = Some c"
    and "\<not> truthy (text_of c)"
  shows "import_loop a (before @ remove_field name e # after) =
         import_loop a (before @ e # after)"
  by (simp add: import_loop_append import_element_remove_blank [OF assms]
      split: sum.splits)

lemma grouped_key_qualifies:
  "\<not> q' k \<Longrightarrow> grouped (\<lambda>e. q' (f e)) f g es k = None"
  by (auto simp: grouped_def filter_empty_conv)

lemma entry_keys:
  "fst ` set (set_if_truthy name v ent) = (if truthy v then insert name (fst ` set ent) else fst ` set ent)"
  by (simp add: set_if_truthy_def dom_update)


lemma build_datasets_remove_blank:
  assumes "name \<in> set optionalElements" and "element_find e name = Some c"
    and "\<not> truthy (text_of c)"
  shows "build_datasets (before @ remove_field name e # after) =
         build_datasets (before @ e # after)"
  by (simp only: build_datasets_def import_loop_remove_blank [OF assms])

lemma blank_field_not_in_entries:
  assumes "name \<in> set optionalElements" and "\<not> truthy (text_or_None e name)"
  shows "name \<notin> fst ` set (abbrev_entry_of e)"
    and "name \<notin> fst ` set (name_entry_of e)"
    and "name \<notin> fst ` set (language_entry_of e)"
    and "name \<notin> fst ` set (publisher_entry_of e)"
    and "name \<notin> fst ` set (licence_entry_of e)"
    and "name \<notin> fst ` set (webLink_entry_of e)"
  using assms
  by (auto simp: optionalElements_def abbrev_entry_of_def name_entry_of_def
      language_entry_of_def publisher_entry_of_def licence_entry_of_def webLink_entry_of_def
      abbrev_entry_def name_entry_def language_entry_def publisher_entry_def
      licence_entry_def webLink_entry_def entry_keys publisherName_of_def licence_of_def
      webLink_of_def split: if_splits)

lemma no_falsy_key:
  assumes "build_datasets es = Inr ds" and "name \<in> set optionalElements" and "\<not> truthy k"
  shows "map_of (index_keyed_by name ds) k = None"
  using assms(2,3) build_datasets_indices(3-5) [OF assms(1), of k]
    grouped_key_qualifies [of truthy k]
  by (auto simp: index_keyed_by_def optionalElements_def)

text \<open>
  C10. A record whose optional field (publisherName, licence or webLink) is there but
  blank, its text being the empty string or \<^verbatim>\<open>None\<close>, gives the datasets it would give
  with the field taken out, and \<^verbatim>\<open>importDataToPython\<close> the same outcome; none of its six
  entries has the field, and the index keyed by the field has no bucket for the blank
  value.
\<close>

theorem blank_optional_field_is_absent:
  assumes "name \<in> set optionalElements" and "element_find e name = Some c"
    and "\<not> truthy (text_of c)"
  shows "build_datasets (before @ e # after) =
           build_datasets (before @ remove_field name e # after) \<and>
         name \<notin> fst ` set (abbrev_entry_of e) \<and>
         name \<notin> fst ` set (name_entry_of e) \<and>
         name \<notin> fst ` set (language_entry_of e) \<and>
         name \<notin> fst ` set (publisher_entry_of e) \<and>
         name \<notin> fst ` set (licence_entry_of e) \<and>
         name \<notin> fst ` set (webLink_entry_of e) \<and>
         (build_datasets (before @ e # after) = Inr ds \<longrightarrow>
            map_of (index_keyed_by name ds) (text_of c) = None) \<and>
         (DataSets self = None \<longrightarrow>
            fst (importDataToPython
                   (self\<lparr>XMLTree := Some (Element t x y z (before @ e # after))\<rparr>)) =
            fst (importDataToPython
                   (self\<lparr>XMLTree :=
                      Some (Element t x y z (before @ remove_field name e # after))\<rparr>)))"
proof -
  have blank: "\<not> truthy (text_or_None e name)"
    using assms(2,3) by (simp add: text_or_None_def)
  have same: "build_datasets (before @ remove_field name e # after) =
              build_datasets (before @ e # after)"
    by (rule build_datasets_remove_blank [OF assms])
  have "DataSets self = None \<Longrightarrow>
            fst (importDataToPython
                   (self\<lparr>XMLTree := Some (Element t x y z (before @ e # after))\<rparr>)) =
            fst (importDataToPython
                   (self\<lparr>XMLTree :=
                      Some (Element t x y z (before @ remove_field name e # after))\<rparr>))"
    by (simp add: importDataToPython_def same split: sum.splits)
  then show ?thesis
    using same blank_field_not_in_entries [OF assms(1) blank]
      no_falsy_key [OF _ assms(1) assms(3), of "before @ e # after" ds]
    by simp
qed

theorem blank_optional_field_is_absent_witness:
  "''licence'' \<in> set optionalElements \<and>
   element_find kjv_blank_licence ''licence'' = Some (Element ''licence'' None None [] []) \<and>
   \<not> truthy (text_of (Element ''licence'' None None [] [])) \<and>
   build_datasets ([web] @ kjv_blank_licence # []) =
     build_datasets ([web] @ remove_field ''licence'' kjv_blank_licence # []) \<and>
   ''licence'' \<notin> fst ` set (abbrev_entry_of kjv_blank_licence) \<and>
   ''licence'' \<notin> fst ` set (name_entry_of kjv_blank_licence)"
proof -
  have 1: "''licence'' \<in> set optionalElements"
    by (simp add: optionalElements_def)
  have 2: "element_find kjv_blank_licence ''licence'' = Some (Element ''licence'' None None [] [])"
    by (simp add: element_find_def kjv_blank_licence_def version_record_def leaf_def)
  have 3: "\<not> truthy (text_of (Element ''licence'' None None [] []))"
    by (simp add: truthy_def)
  from blank_optional_field_is_absent [OF 1 2 3, of "[web]" "[]"] 1 2 3
  show ?thesis by blast
qed


section \<open>Loading\<close>

lemma read_work_cases:
  "read_work self work =
     (case (element_find work ''version'', element_find work ''date'', element_find work ''title'') of
        (None, _, _) \<Rightarrow> (Raised AttributeError, self)
      | (Some v, None, _) \<Rightarrow> (Raised AttributeError, self\<lparr>PROGRAM_VERSION := text_of v\<rparr>)
      | (Some v, Some d, None) \<Rightarrow>
          (Raised AttributeError, self\<lparr>PROGRAM_VERSION := text_of v, dateString := text_of d\<rparr>)
      | (Some v, Some d, Some t) \<Rightarrow>
          (Returned (), self\<lparr>PROGRAM_VERSION := text_of v, dateString := text_of d,
                              titleString := text_of t\<rparr>))"
  by (simp add: read_work_def find_text_def Let_def split: option.splits)

lemma load_fresh:
  assumes "XMLTree self = None" and "path \<noteq> []" and "parse env path = Inr root"
    and "children root \<noteq> []"
  shows "load env self path =
           (if tag root = treeTag then load_header env (with_tree self path root) root
            else (Returned (), with_tree self path root,
                  [Log ERROR (ExpectedToLoad treeTag (tag root))]))"
  using assms by (simp add: load_def with_tree_def Let_def)

lemma init_simps:
  "XMLTree init = None" "DataSets init = None" "XMLFileOrFilepath init = None"
  by (simp_all add: init_def)

lemma environment_of_simps:
  "parse (environment_of root strict) ''codes.xml'' = Inr root"
  "strictCheckingFlag (environment_of root strict) = strict"
  by (simp_all add: environment_of_def)

text \<open>
  C3. A document whose root tag is not the expected one does not make the load fail:
  \<^verbatim>\<open>__load\<close> logs one error that gives both tags, leaves the header untouched, keeps the
  parsed tree with all its children as the tree of the instance, and returns; so does
  \<^verbatim>\<open>loadAndValidate\<close> when the strict flag is not set.
\<close>

theorem tag_mismatch_is_logged:
  assumes "XMLTree self = None"
  shows "(path \<noteq> [] \<and> parse env path = Inr root \<and> children root \<noteq> [] \<and> tag root \<noteq> treeTag \<longrightarrow>
            load env self path =
              (Returned (), with_tree self path root,
               [Log ERROR (ExpectedToLoad treeTag (tag root))])) \<and>
         (parse env path = Inr root \<and> children root \<noteq> [] \<and> tag root \<noteq> treeTag \<and> path \<noteq> [] \<and>
          \<not> strictCheckingFlag env \<longrightarrow>
            loadAndValidate env self (Some path) =
              (Returned (), with_tree self path root,
               [Log ERROR (ExpectedToLoad treeTag (tag root))]))"
  using assms by (auto simp: load_fresh loadAndValidate_def)

theorem tag_mismatch_is_logged_witness:
  "XMLTree init = None \<and>
   load (environment_of (document ''Bibles'' [kjv]) False) init ''codes.xml'' =
     (Returned (), with_tree init ''codes.xml'' (document ''Bibles'' [kjv]),
      [Log ERROR (ExpectedToLoad ''BibleVersionCodes'' ''Bibles'')]) \<and>
   loadAndValidate (environment_of (document ''Bibles'' [kjv]) False) init (Some ''codes.xml'') =
     (Returned (), with_tree init ''codes.xml'' (document ''Bibles'' [kjv]),
      [Log ERROR (ExpectedToLoad ''BibleVersionCodes'' ''Bibles'')]) \<and>
   XMLTree (with_tree init ''codes.xml'' (document ''Bibles'' [kjv])) =
     Some (document ''Bibles'' [kjv])"
proof -
  have mismatch: "''codes.xml'' \<noteq> [] \<and>
      parse (environment_of (document ''Bibles'' [kjv]) False) ''codes.xml'' =
        Inr (document ''Bibles'' [kjv]) \<and>
      children (document ''Bibles'' [kjv]) \<noteq> [] \<and> tag (document ''Bibles'' [kjv]) \<noteq> treeTag \<and>
      \<not> strictCheckingFlag (environment_of (document ''Bibles'' [kjv]) False)"
    by (simp add: environment_of_simps document_def treeTag_def)
  from tag_mismatch_is_logged [OF init_simps(1), of "''codes.xml''"
      "environment_of (document ''Bibles'' [kjv]) False" "document ''Bibles'' [kjv]"] mismatch
  have "load (environment_of (document ''Bibles'' [kjv]) False) init ''codes.xml'' =
     (Returned (), with_tree init ''codes.xml'' (document ''Bibles'' [kjv]),
      [Log ERROR (ExpectedToLoad treeTag (tag (document ''Bibles'' [kjv])))])"
    and "loadAndValidate (environment_of (document ''Bibles'' [kjv]) False) init (Some ''codes.xml'') =
     (Returned (), with_tree init ''codes.xml'' (document ''Bibles'' [kjv]),
      [Log ERROR (ExpectedToLoad treeTag (tag (document ''Bibles'' [kjv])))])"
    by blast+
  then show ?thesis
    by (simp add: init_simps treeTag_def document_def with_tree_def)
qed

theorem tag_mismatch_counterexample:
  "tag (document ''Bibles'' [kjv]) \<noteq> treeTag \<and>
   loadAndValidate (environment_of (document ''Bibles'' [kjv]) False) init (Some ''codes.xml'') =
     (Returned (), with_tree init ''codes.xml'' (document ''Bibles'' [kjv]),
      [Log ERROR (ExpectedToLoad ''BibleVersionCodes'' ''Bibles'')]) \<and>
   XMLTree (with_tree init ''codes.xml'' (document ''Bibles'' [kjv])) =
     Some (document ''Bibles'' [kjv])"
  by (simp add: loadAndValidate_def load_def init_def environment_of_def document_def
      treeTag_def with_tree_def)

text \<open>
  C9. A document with a header whose work element has a version and a title but no date:
  the load raises \<^verbatim>\<open>AttributeError\<close> at line 134, after the header was taken out of
  the tree and the version was assigned, with or without the strict flag.
\<close>

theorem incomplete_header_aborts_load:
  "loadAndValidate (environment_of (document ''BibleVersionCodes'' [undated_header, kjv]) False)
     init (Some ''codes.xml'') =
     (Raised AttributeError,
      (with_tree init ''codes.xml'' (document ''BibleVersionCodes'' [kjv]))
        \<lparr>XMLheader := Some undated_header, PROGRAM_VERSION := Some ''0.01''\<rparr>,
      []) \<and>
   loadAndValidate (environment_of (document ''BibleVersionCodes'' [undated_header, kjv]) True)
     init (Some ''codes.xml'') =
     (Raised AttributeError,
      (with_tree init ''codes.xml'' (document ''BibleVersionCodes'' [kjv]))
        \<lparr>XMLheader := Some undated_header, PROGRAM_VERSION := Some ''0.01''\<rparr>,
      [])"
  by (simp add: loadAndValidate_def load_def load_header_def read_work_cases init_def
      environment_of_def report_def document_def undated_header_def treeTag_def
      headerTag_def with_tree_def header_checks_def work_checks_def remove_first_child_def
      strip_truthy_def element_find_def leaf_def Let_def)


section \<open>Second calls\<close>

lemma importDataToPython_cached:
  assumes "DataSets self = Some ds" and "XMLTree self = Some tree" and "children tree \<noteq> []"
  shows "importDataToPython self = (Returned ds, self)"
  using assms by (simp add: importDataToPython_def)

lemma importDataToPython_caches:
  assumes "importDataToPython self = (Returned ds, self')"
  shows "self' = self\<lparr>DataSets := Some ds\<rparr> \<and>
         (\<exists>tree. XMLTree self = Some tree \<and> children tree \<noteq> [])"
  using assms
  by (auto simp: importDataToPython_def split: option.splits if_splits sum.splits)

lemma init_consistent: "cache_consistent init"
  by (simp add: cache_consistent_def init_def)

lemma importDataToPython_keeps_consistent:
  assumes "cache_consistent self" and "importDataToPython self = (outcome, self')"
  shows "cache_consistent self'"
  using assms
  by (auto simp: importDataToPython_def cache_consistent_def
      split: option.splits if_splits sum.splits)

lemma read_work_keeps:
  "read_work self work = (outcome, self') \<Longrightarrow>
     XMLTree self' = XMLTree self \<and> DataSets self' = DataSets self \<and>
     XMLFileOrFilepath self' = XMLFileOrFilepath self"
  by (auto simp: read_work_cases split: option.splits)

lemma load_header_keeps:
  assumes "load_header env self root = (outcome, self', log)"
  shows "DataSets self' = DataSets self \<and> XMLFileOrFilepath self' = XMLFileOrFilepath self \<and>
         (XMLTree self \<noteq> None \<longrightarrow> XMLTree self' \<noteq> None)"
  using assms
  by (auto simp: load_header_def Let_def
      split: if_splits prod.splits result.splits option.splits
      dest!: read_work_keeps)

lemma load_keeps:
  assumes "load env self path = (outcome, self', log)"
  shows "DataSets self' = DataSets self \<and>
         (XMLTree self' \<noteq> None \<longrightarrow> XMLFileOrFilepath self' = Some path \<or> self' = self)"
  using assms
  by (auto simp: load_def Let_def split: if_splits sum.splits option.splits
      dest!: load_header_keeps)

lemma first_load_records_path:
  assumes "XMLTree self = None"
    and "loadAndValidate env self given = (outcome, self', log)"
    and "XMLTree self' \<noteq> None"
  shows "XMLFileOrFilepath self' =
           Some (case given of None \<Rightarrow> default_filepath | Some p \<Rightarrow> p)"
proof -
  from assms(1,2) obtain o1 l1 where
    "load env self (case given of None \<Rightarrow> default_filepath | Some p \<Rightarrow> p) = (o1, self', l1)"
    by (auto simp: loadAndValidate_def Let_def split: prod.splits result.splits if_splits)
  from load_keeps [OF this] assms(1,3) show ?thesis
    by auto
qed

lemma loadAndValidate_keeps_consistent:
  assumes "cache_consistent self" and "loadAndValidate env self given = (outcome, self', log)"
  shows "cache_consistent self'"
proof (cases "XMLTree self")
  case None
  with assms(1) have none: "DataSets self = None"
    by (auto simp: cache_consistent_def split: option.splits)
  from None assms(2) obtain o1 l1 where
    "load env self (case given of None \<Rightarrow> default_filepath | Some p \<Rightarrow> p) = (o1, self', l1)"
    by (auto simp: loadAndValidate_def Let_def split: prod.splits result.splits if_splits)
  from load_keeps [OF this] none show ?thesis
    by (simp add: cache_consistent_def)
next
  case (Some tree)
  with assms show ?thesis
    by (auto simp: loadAndValidate_def split: option.splits if_splits)
qed

text \<open>
  C7. The first call of \<^verbatim>\<open>importDataToPython\<close> that returns stores its result in the
  instance and changes nothing else; a second call gives that result and leaves the
  instance as it is; an instance that holds datasets returns them whatever its tree
  holds. \<^verbatim>\<open>loadAndValidate\<close> on an instance that holds a tree returns the instance
  unchanged, with no use of the parser, and logs one error exactly when a path is given
  that differs from the recorded one.
\<close>

theorem second_calls_change_nothing:
  "(importDataToPython self = (Returned ds, self') \<longrightarrow>
      self' = self\<lparr>DataSets := Some ds\<rparr> \<and> DataSets self' = Some ds \<and>
      importDataToPython self' = (Returned ds, self')) \<and>
   (DataSets self = Some ds \<and> XMLTree self = Some tree \<and> children tree \<noteq> [] \<longrightarrow>
      importDataToPython self = (Returned ds, self)) \<and>
   (XMLTree self = Some tree \<and> XMLFileOrFilepath self = Some loadedPath \<longrightarrow>
      loadAndValidate env self given =
        (Returned (), self,
         if given \<noteq> None \<and> given \<noteq> Some loadedPath
         then [Log ERROR (AlreadyLoaded (the given))] else []))"
proof (intro conjI impI)
  assume first: "importDataToPython self = (Returned ds, self')"
  from importDataToPython_caches [OF first] obtain tree' where
    stored: "self' = self\<lparr>DataSets := Some ds\<rparr>"
    and tree: "XMLTree self = Some tree'" "children tree' \<noteq> []"
    by auto
  show "self' = self\<lparr>DataSets := Some ds\<rparr>"
    by (rule stored)
  show "DataSets self' = Some ds"
    by (simp add: stored)
  have "DataSets self' = Some ds" "XMLTree self' = Some tree'"
    using stored tree by simp_all
  then show "importDataToPython self' = (Returned ds, self')"
    using tree(2) by (rule importDataToPython_cached)
next
  assume "DataSets self = Some ds \<and> XMLTree self = Some tree \<and> children tree \<noteq> []"
  then show "importDataToPython self = (Returned ds, self)"
    by (simp add: importDataToPython_cached)
next
  assume "XMLTree self = Some tree \<and> XMLFileOrFilepath self = Some loadedPath"
  then show "loadAndValidate env self given =
        (Returned (), self,
         if given \<noteq> None \<and> given \<noteq> Some loadedPath
         then [Log ERROR (AlreadyLoaded (the given))] else [])"
    by (cases given) (simp_all add: loadAndValidate_def)
qed

theorem second_calls_change_nothing_witness:
  "\<exists>ds. importDataToPython (loaded [kjv, web]) =
           (Returned ds, (loaded [kjv, web])\<lparr>DataSets := Some ds\<rparr>) \<and>
      DataSets ((loaded [kjv, web])\<lparr>DataSets := Some ds\<rparr>) = Some ds \<and>
      importDataToPython ((loaded [kjv, web])\<lparr>DataSets := Some ds\<rparr>) =
           (Returned ds, (loaded [kjv, web])\<lparr>DataSets := Some ds\<rparr>) \<and>
      importDataToPython
        ((loaded [kjv, web])\<lparr>DataSets := Some (make_datasets [] no_accumulators)\<rparr>) =
           (Returned (make_datasets [] no_accumulators),
            (loaded [kjv, web])\<lparr>DataSets := Some (make_datasets [] no_accumulators)\<rparr>) \<and>
      XMLFileOrFilepath (loaded [kjv, web]) = Some ''codes.xml'' \<and>
      loadAndValidate (environment_of (document ''Bibles'' [web]) True) (loaded [kjv, web])
        (Some ''other.xml'') =
        (Returned (), loaded [kjv, web], [Log ERROR (AlreadyLoaded ''other.xml'')]) \<and>
      loadAndValidate (environment_of (document ''Bibles'' [web]) True) (loaded [kjv, web])
        (Some ''codes.xml'') = (Returned (), loaded [kjv, web], []) \<and>
      loadAndValidate (environment_of (document ''Bibles'' [web]) True) (loaded [kjv, web])
        None = (Returned (), loaded [kjv, web], [])"
proof -
  let ?es = "[kjv, web]"
  let ?tree = "Element ''BibleVersionCodes'' None None [] ?es"
  let ?env = "environment_of (document ''Bibles'' [web]) True"
  let ?stale = "(loaded ?es)\<lparr>DataSets := Some (make_datasets [] no_accumulators)\<rparr>"
  have "build_datasets (children ?tree) =
          Inr (make_datasets (sort (map mainAbbreviation_of ?es))
                 (foldl (\<lambda>a e. store_element e a) no_accumulators ?es))"
    (is "_ = Inr ?ds")
    by (simp add: build_datasets_complete complete_examples mainAbbreviation_examples
        del: foldl_Cons)
  then have run: "importDataToPython (loaded ?es) =
                    (Returned ?ds, (loaded ?es)\<lparr>DataSets := Some ?ds\<rparr>)"
    by (intro importDataToPython_fresh [where tree = ?tree]) (simp_all add: loaded_simps)
  have path: "XMLFileOrFilepath (loaded ?es) = Some ''codes.xml''"
    by (simp add: loaded_def)
  from second_calls_change_nothing
         [of "loaded ?es" ?ds "(loaded ?es)\<lparr>DataSets := Some ?ds\<rparr>" ?tree "''codes.xml''"]
       run loaded_simps(1) [of ?es] path
  have again: "importDataToPython ((loaded ?es)\<lparr>DataSets := Some ?ds\<rparr>) =
                 (Returned ?ds, (loaded ?es)\<lparr>DataSets := Some ?ds\<rparr>)"
    and reload: "\<And>given. loadAndValidate ?env (loaded ?es) given =
        (Returned (), loaded ?es,
         if given \<noteq> None \<and> given \<noteq> Some ''codes.xml''
         then [Log ERROR (AlreadyLoaded (the given))] else [])"
    by blast+
  have "DataSets ?stale = Some (make_datasets [] no_accumulators) \<and>
        XMLTree ?stale = Some ?tree \<and> children ?tree \<noteq> []"
    by (simp add: loaded_def)
  with second_calls_change_nothing [of ?stale "make_datasets [] no_accumulators" _ ?tree]
  have stale: "importDataToPython ?stale = (Returned (make_datasets [] no_accumulators), ?stale)"
    by blast
  show ?thesis
    using run again stale reload [of "Some ''other.xml''"] reload [of "Some ''codes.xml''"]
      reload [of None] path
    by (intro exI [of _ ?ds]) simp
qed


section \<open>The cross-check accumulator\<close>




section \<open>Validating\<close>


































text \<open>
  C1. A document with a complete header and one record that has a mainAbbreviation and a
  versionName but no languageCode. Under the strict flag \<^verbatim>\<open>loadAndValidate\<close> raises
  \<^verbatim>\<open>AttributeError\<close> at line 194, before the check of the compulsory elements, and logs
  nothing; without the flag it returns, and \<^verbatim>\<open>importDataToPython\<close> on the loaded
  instance raises \<^verbatim>\<open>AttributeError\<close> at line 302 and stores no datasets.
\<close>

theorem missing_required_field_aborts:
  "element_find kjv_no_language ''languageCode'' = None \<and>
   loadAndValidate
     (environment_of (document ''BibleVersionCodes'' [full_header, kjv_no_language]) True)
     init (Some ''codes.xml'') =
     (Raised AttributeError,
      (with_tree init ''codes.xml'' (document ''BibleVersionCodes'' [kjv_no_language]))
        \<lparr>XMLheader := Some full_header, PROGRAM_VERSION := Some ''0.01'',
         dateString := Some ''2022-05-18'', titleString := Some ''Bible version codes''\<rparr>,
      []) \<and>
   loadAndValidate
     (environment_of (document ''BibleVersionCodes'' [full_header, kjv_no_language]) False)
     init (Some ''codes.xml'') =
     (Returned (),
      (with_tree init ''codes.xml'' (document ''BibleVersionCodes'' [kjv_no_language]))
        \<lparr>XMLheader := Some full_header, PROGRAM_VERSION := Some ''0.01'',
         dateString := Some ''2022-05-18'', titleString := Some ''Bible version codes''\<rparr>,
      []) \<and>
   importDataToPython
     ((with_tree init ''codes.xml'' (document ''BibleVersionCodes'' [kjv_no_language]))
        \<lparr>XMLheader := Some full_header, PROGRAM_VERSION := Some ''0.01'',
         dateString := Some ''2022-05-18'', titleString := Some ''Bible version codes''\<rparr>) =
     (Raised AttributeError,
      (with_tree init ''codes.xml'' (document ''BibleVersionCodes'' [kjv_no_language]))
        \<lparr>XMLheader := Some full_header, PROGRAM_VERSION := Some ''0.01'',
         dateString := Some ''2022-05-18'', titleString := Some ''Bible version codes''\<rparr>)"
proof -
  let ?state = "(with_tree init ''codes.xml'' (document ''BibleVersionCodes'' [kjv_no_language]))
        \<lparr>XMLheader := Some full_header, PROGRAM_VERSION := Some ''0.01'',
         dateString := Some ''2022-05-18'', titleString := Some ''Bible version codes''\<rparr>"
  have 1: "element_find kjv_no_language ''languageCode'' = None"
    by (simp add: element_find_def kjv_no_language_def version_record_def leaf_def)
  have load: "\<And>strict. load
     (environment_of (document ''BibleVersionCodes'' [full_header, kjv_no_language]) strict)
     init ''codes.xml'' = (Returned (), ?state, [])"
    by (simp add: load_def load_header_def read_work_cases init_def
        environment_of_def report_def document_def full_header_def treeTag_def headerTag_def
        with_tree_def header_checks_def work_checks_def remove_first_child_def
        header_tail_check_def strip_truthy_def element_find_def leaf_def Let_def)
  have validate: "validate
     (environment_of (document ''BibleVersionCodes'' [full_header, kjv_no_language]) True)
     ?state = (Raised AttributeError, [])"
    by (simp add: validate_def validate_element_def record_checks_def with_tree_def init_def
        environment_of_def report_def document_def kjv_no_language_def version_record_def
        leaf_def mainElementTag_def compulsoryAttributes_def optionalAttributes_def
        uniqueAttributes_def compulsoryElements_def optionalElements_def
        check_compulsory_attributes_def check_optional_attributes_def
        check_additional_attributes_def strip_truthy_def find_text_def element_find_def
        Let_def)
  have 2: "loadAndValidate
     (environment_of (document ''BibleVersionCodes'' [full_header, kjv_no_language]) True)
     init (Some ''codes.xml'') = (Raised AttributeError, ?state, [])"
    by (simp add: loadAndValidate_def load validate init_simps environment_of_simps)
  have 3: "loadAndValidate
     (environment_of (document ''BibleVersionCodes'' [full_header, kjv_no_language]) False)
     init (Some ''codes.xml'') = (Returned (), ?state, [])"
    by (simp add: loadAndValidate_def load init_simps environment_of_simps)
  have 4: "importDataToPython ?state = (Raised AttributeError, ?state)"
    by (simp add: importDataToPython_def with_tree_def init_def document_def
        build_datasets_def import_element_def find_text_def element_find_def
        kjv_no_language_def version_record_def leaf_def)
  from 1 2 3 4 show ?thesis by blast
qed


section \<open>Checkers that raise\<close>

text \<open>
  With checkers that behave as those of the library, a header that carries an attribute
  ends the load under the strict flag with the \<^verbatim>\<open>NameError\<close> of the checker, after its
  report; without the flag the report is logged and the load goes on. In the same way a
  record that carries an attribute ends the validation.
\<close>

lemma reporting_checker_ends_strict_load:
  "load (environment_of
           (document ''BibleVersionCodes'' [Element ''header'' None None [(''id'', ''1'')] [], kjv])
           True)
     init ''codes.xml'' =
     (Raised NameError,
      (with_tree init ''codes.xml'' (document ''BibleVersionCodes'' [kjv]))
        \<lparr>XMLheader := Some (Element ''header'' None None [(''id'', ''1'')] [])\<rparr>,
      [External ''Unexpected attribute in header''])"
  "load (environment_of
           (document ''BibleVersionCodes'' [Element ''header'' None None [(''id'', ''1'')] [], kjv])
           False)
     init ''codes.xml'' =
     (Returned (),
      (with_tree init ''codes.xml'' (document ''BibleVersionCodes'' [kjv]))
        \<lparr>XMLheader := Some (Element ''header'' None None [(''id'', ''1'')] [])\<rparr>,
      [External ''Unexpected attribute in header'', Log INFO MissingWorkElementInHeader])"
  by (simp_all add: load_def load_header_def init_def environment_of_def report_def
      document_def treeTag_def headerTag_def with_tree_def header_checks_def
      remove_first_child_def header_tail_check_def strip_truthy_def Let_def)

lemma reporting_checker_ends_validation:
  "validate (environment_of (document ''x'' [kjv]) True)
     (loaded [Element ''BibleVersionCodes'' None None [(''id'', ''1'')]
                [leaf ''referenceAbbreviation'' ''first'', leaf ''mainAbbreviation'' ''KJV'']]) =
     (Raised NameError, [External ''Unexpected attribute in BibleVersionCodes''])"
  by (simp add: validate_def validate_element_def record_checks_def loaded_def init_def
      environment_of_def report_def leaf_def mainElementTag_def compulsoryAttributes_def
      optionalAttributes_def strip_truthy_def Let_def)

end
